theory Spec2Isabelle
  imports Complex_Main "HOL-Library.Sublist"
begin

text \<open>
  A model of \<^verbatim>\<open>convert_gps.py\<close>. Python strings are modelled as \<^typ>\<open>string\<close>, one
  \<^typ>\<open>char\<close> per code point (text whose code points are below 256), Python's
  unbounded integers as \<^typ>\<open>int\<close>, an exception as a value of \<open>exn\<close> on the left of
  a sum. The built-in functions follow CPython 3.11.
\<close>


section \<open>Python values and exceptions\<close>

datatype exn =
    NameError string
  | UnboundLocalError string
  | IndexError string
  | ValueError string
  | OverflowError string
  | OSError string
  | KeyboardInterrupt

fun str_exn :: "exn \<Rightarrow> string" where
  "str_exn (NameError m) = m"
| "str_exn (UnboundLocalError m) = m"
| "str_exn (IndexError m) = m"
| "str_exn (ValueError m) = m"
| "str_exn (OverflowError m) = m"
| "str_exn (OSError m) = m"
| "str_exn KeyboardInterrupt = []"

fun is_Exception :: "exn \<Rightarrow> bool" where
  "is_Exception KeyboardInterrupt = False"
| "is_Exception _ = True"

definition bnd :: "exn + 'a \<Rightarrow> ('a \<Rightarrow> exn + 'b) \<Rightarrow> exn + 'b" where
  "bnd m f = (case m of Inl e \<Rightarrow> Inl e | Inr x \<Rightarrow> f x)"

definition getitem :: "string list \<Rightarrow> nat \<Rightarrow> exn + string" where
  "getitem xs i =
     (if i < length xs then Inr (xs ! i) else Inl (IndexError ''list index out of range''))"

definition str_getitem :: "string \<Rightarrow> nat \<Rightarrow> exn + char" where
  "str_getitem s i =
     (if i < length s then Inr (s ! i) else Inl (IndexError ''string index out of range''))"

subsection \<open>Character classes\<close>

definition is_digit :: "char \<Rightarrow> bool" where
  "is_digit c = (c \<in> set ''0123456789'')"

definition digit_val :: "char \<Rightarrow> int" where
  "digit_val c = of_char c - 48"

definition is_space :: "char \<Rightarrow> bool" where
  "is_space c = (c \<in> set [CHR 0x09, CHR 0x0A, CHR 0x0B, CHR 0x0C, CHR 0x0D, CHR 0x20])"

definition to_ascii_space :: "char \<Rightarrow> char" where
  "to_ascii_space c = (if c = CHR 0x85 \<or> c = CHR 0xA0 then CHR 0x20 else c)"

definition strip :: "string \<Rightarrow> string" where
  "strip s = rev (dropWhile is_space (rev (dropWhile is_space s)))"

definition to_lower :: "char \<Rightarrow> char" where
  "to_lower c =
     (if 65 \<le> (of_char c :: nat) \<and> (of_char c :: nat) \<le> 90 then char_of (of_char c + 32 :: nat)
      else c)"

fun int_of_digits :: "int \<Rightarrow> string \<Rightarrow> int" where
  "int_of_digits acc [] = acc"
| "int_of_digits acc (c # cs) = int_of_digits (10 * acc + digit_val c) cs"

definition hex_digit :: "nat \<Rightarrow> char" where
  "hex_digit n = ''0123456789abcdef'' ! (n mod 16)"

function digits_of_int :: "int \<Rightarrow> string" where
  "digits_of_int n =
     (if n < 10 then [hex_digit (nat n)]
      else digits_of_int (n div 10) @ [hex_digit (nat (n mod 10))])"
  by pat_completeness auto
termination
  by (relation "measure nat") auto

declare digits_of_int.simps [simp del]

subsection \<open>repr of a string\<close>

text \<open>
  \<^verbatim>\<open>repr(s)\<close>, which the messages of ValueError quote: single quotes unless the string
  holds a single quote and no double quote; the quote and the backslash escaped,
  tab, newline and carriage return by letter, every other character that is not
  printable as \<^verbatim>\<open>\xhh\<close>.
\<close>

definition printable_latin1 :: "char \<Rightarrow> bool" where
  "printable_latin1 c = (161 \<le> (of_char c :: nat) \<and> c \<noteq> CHR 0xAD)"

definition repr_char :: "char \<Rightarrow> char \<Rightarrow> string" where
  "repr_char q c =
     (if c = q \<or> c = CHR 0x5C then [CHR 0x5C, c]
      else if c = CHR 0x09 then [CHR 0x5C, CHR ''t'']
      else if c = CHR 0x0A then [CHR 0x5C, CHR ''n'']
      else if c = CHR 0x0D then [CHR 0x5C, CHR ''r'']
      else if (of_char c :: nat) < 32 \<or> c = CHR 0x7F
        then [CHR 0x5C, CHR ''x'', hex_digit (of_char c div 16), hex_digit (of_char c)]
      else if (of_char c :: nat) < 127 then [c]
      else if printable_latin1 c then [c]
      else [CHR 0x5C, CHR ''x'', hex_digit (of_char c div 16), hex_digit (of_char c)])"

definition py_repr :: "string \<Rightarrow> string" where
  "py_repr s =
     (let q = (if CHR 0x27 \<in> set s \<and> CHR 0x22 \<notin> set s then CHR 0x22 else CHR 0x27)
      in q # concat (map (repr_char q) s) @ [q])"

subsection \<open>int(str)\<close>

fun no_double_underscore :: "string \<Rightarrow> bool" where
  "no_double_underscore (a # b # cs) =
     (\<not> (a = CHR ''_'' \<and> b = CHR ''_'') \<and> no_double_underscore (b # cs))"
| "no_double_underscore _ = True"

text \<open>
  \<^verbatim>\<open>int(s)\<close> in base 10: surrounding whitespace, an optional sign, then decimal digits
  with single underscores between them. The scan of digits and underscores stops at
  the first other character; more than 4300 digits in it raise the error of the
  conversion limit before anything that follows is looked at.
\<close>

definition py_int :: "string \<Rightarrow> exn + int" where
  "py_int s =
     (let t = strip (map to_ascii_space s);
          has_sign = (t \<noteq> [] \<and> (hd t = CHR ''-'' \<or> hd t = CHR ''+''));
          u = (if has_sign then tl t else t);
          body = takeWhile (\<lambda>c. is_digit c \<or> c = CHR ''_'') u;
          digits = filter is_digit body;
          invalid = ValueError (''invalid literal for int() with base 10: '' @ py_repr s)
      in if body \<noteq> [] \<and>
            (hd body = CHR ''_'' \<or> last body = CHR ''_'' \<or> \<not> no_double_underscore body)
         then Inl invalid
         else if 4300 < length digits
         then Inl (ValueError
           (''Exceeds the limit (4300 digits) for integer string conversion: value has ''
             @ digits_of_int (int (length digits))
             @ '' digits; use sys.set_int_max_str_digits() to increase the limit''))
         else if body = [] \<or> body \<noteq> u then Inl invalid
         else Inr (if hd t = CHR ''-'' then - int_of_digits 0 digits else int_of_digits 0 digits))"


section \<open>Binary floating point\<close>

text \<open>
  A Python \<^verbatim>\<open>float\<close> is an IEEE 754 binary64 value. It is modelled exactly: a sign
  and a rational magnitude that is representable in binary64, the two infinities, and
  not-a-number. Every operation computes the exact rational result and rounds it to
  the nearest representable value, ties to the even significand.
\<close>

datatype pyfloat = Fin bool rat | Inf bool | NaN

function bit_length :: "int \<Rightarrow> int" where
  "bit_length n = (if 0 < n then bit_length (n div 2) + 1 else 0)"
  by pat_completeness auto
termination
  by (relation "measure nat") auto

declare bit_length.simps [simp del]

function dec_length :: "int \<Rightarrow> int" where
  "dec_length n = (if 0 < n then dec_length (n div 10) + 1 else 0)"
  by pat_completeness auto
termination
  by (relation "measure nat") auto

declare dec_length.simps [simp del]

definition pow :: "rat \<Rightarrow> int \<Rightarrow> rat" where
  "pow b e = (if 0 \<le> e then b ^ nat e else 1 / b ^ nat (- e))"

definition ilog2 :: "rat \<Rightarrow> int" where
  "ilog2 q =
     (let e0 = bit_length (fst (quotient_of q)) - bit_length (snd (quotient_of q))
      in if pow 2 e0 \<le> q then e0 else e0 - 1)"

definition ilog10 :: "rat \<Rightarrow> int" where
  "ilog10 q =
     (let e0 = dec_length (fst (quotient_of q)) - dec_length (snd (quotient_of q))
      in if pow 10 e0 \<le> q then e0 else e0 - 1)"

definition round_half_even :: "rat \<Rightarrow> int" where
  "round_half_even q =
     (let f = \<lfloor>q\<rfloor>; r = q - of_int f
      in if r < 1 / 2 then f
         else if 1 / 2 < r then f + 1
         else if even f then f else f + 1)"

definition to_double :: "bool \<Rightarrow> rat \<Rightarrow> pyfloat" where
  "to_double sg q =
     (if q = 0 then Fin sg 0
      else if 1024 \<le> ilog2 q then Inf sg
      else
        let e = max (ilog2 q) (- 1022);
            n = round_half_even (q / pow 2 (e - 52))
        in if e = 1023 \<and> n = 2 ^ 53 then Inf sg else Fin sg (of_int n * pow 2 (e - 52)))"

text \<open>
  \<open>to_double sg q\<close> is the binary64 value nearest to the non-negative rational \<open>q\<close>, with
  sign \<open>sg\<close>: 53 significant bits from the binade of \<open>q\<close>, the spacing of the subnormal
  numbers below \<open>2\<^sup>-\<^sup>1\<^sup>0\<^sup>2\<^sup>2\<close>, infinity from \<open>2\<^sup>1\<^sup>0\<^sup>2\<^sup>4\<close> on.
\<close>

subsection \<open>float(str)\<close>

text \<open>
  \<^verbatim>\<open>float(s)\<close>: the two spaces of Latin-1 beyond ASCII count as whitespace; an
  underscore must stand between two digits; after the whitespace at both ends is
  dropped there is an optional sign and then either a decimal number (digits with an
  optional point, at least one digit, an optional exponent) or, in any case of
  letters, \<^verbatim>\<open>inf\<close>, \<^verbatim>\<open>infinity\<close> or \<^verbatim>\<open>nan\<close>. The value is the decimal number correctly
  rounded.
\<close>

fun strip_underscores :: "char \<Rightarrow> string \<Rightarrow> string option" where
  "strip_underscores prev [] = (if prev = CHR ''_'' then None else Some [])"
| "strip_underscores prev (c # cs) =
     (if c = CHR ''_'' then (if is_digit prev then strip_underscores c cs else None)
      else if prev = CHR ''_'' \<and> \<not> is_digit c then None
      else map_option ((#) c) (strip_underscores c cs))"

definition parse_exponent :: "string \<Rightarrow> int option" where
  "parse_exponent r =
     (case r of
        [] \<Rightarrow> Some 0
      | c # r1 \<Rightarrow>
          if c = CHR ''e'' \<or> c = CHR ''E'' then
            (let neg = (r1 \<noteq> [] \<and> hd r1 = CHR ''-'');
                 ds = (if r1 \<noteq> [] \<and> (hd r1 = CHR ''-'' \<or> hd r1 = CHR ''+'') then tl r1 else r1)
             in if ds \<noteq> [] \<and> list_all is_digit ds
                then Some (if neg then - int_of_digits 0 ds else int_of_digits 0 ds)
                else None)
          else None)"

definition parse_decimal :: "string \<Rightarrow> rat option" where
  "parse_decimal t =
     (let ip = takeWhile is_digit t;
          r1 = dropWhile is_digit t;
          has_point = (r1 \<noteq> [] \<and> hd r1 = CHR ''.'');
          fp = (if has_point then takeWhile is_digit (tl r1) else []);
          r2 = (if has_point then dropWhile is_digit (tl r1) else r1)
      in if ip = [] \<and> fp = [] then None
         else case parse_exponent r2 of
                None \<Rightarrow> None
              | Some ex \<Rightarrow> Some (of_int (int_of_digits 0 (ip @ fp)) * pow 10 (ex - int (length fp))))"

definition float_magnitude :: "bool \<Rightarrow> string \<Rightarrow> pyfloat option" where
  "float_magnitude sg t =
     (case parse_decimal t of
        Some q \<Rightarrow> Some (to_double sg q)
      | None \<Rightarrow>
          if map to_lower t = ''inf'' \<or> map to_lower t = ''infinity'' then Some (Inf sg)
          else if map to_lower t = ''nan'' then Some NaN
          else None)"

definition float_literal :: "string \<Rightarrow> pyfloat option" where
  "float_literal t =
     (case t of
        [] \<Rightarrow> None
      | c # r \<Rightarrow>
          if c = CHR ''-'' then float_magnitude True r
          else if c = CHR ''+'' then float_magnitude False r
          else float_magnitude False t)"

definition py_float :: "string \<Rightarrow> exn + pyfloat" where
  "py_float s =
     (case Option.bind (strip_underscores (CHR 0x00) (map to_ascii_space s))
             (\<lambda>u. float_literal (strip u)) of
        None \<Rightarrow> Inl (ValueError (''could not convert string to float: '' @ py_repr s))
      | Some x \<Rightarrow> Inr x)"

subsection \<open>Arithmetic, round and repr\<close>

text \<open>
  Addition and the division by an integer constant round the exact result.
  \<^verbatim>\<open>round(x, n)\<close> rounds the exact value of \<open>x\<close> to \<open>n\<close> decimal places, ties to the even
  digit, and converts the decimal back. \<^verbatim>\<open>repr(x)\<close>, which an f-string applies to a float,
  takes the shortest string of digits that converts back to \<open>x\<close> (the nearest to \<open>x\<close>
  of that length) and writes it with a point, or with an exponent when the value is
  below \<open>10\<^sup>-\<^sup>4\<close> or at least \<open>10\<^sup>1\<^sup>6\<close>.
\<close>

definition signed :: "bool \<Rightarrow> rat \<Rightarrow> rat" where
  "signed sg a = (if sg then - a else a)"

fun float_add :: "pyfloat \<Rightarrow> pyfloat \<Rightarrow> pyfloat" where
  "float_add NaN _ = NaN"
| "float_add _ NaN = NaN"
| "float_add (Inf s) (Inf s') = (if s = s' then Inf s else NaN)"
| "float_add (Inf s) (Fin _ _) = Inf s"
| "float_add (Fin _ _) (Inf s) = Inf s"
| "float_add (Fin s a) (Fin s' b) =
     (let v = signed s a + signed s' b
      in if v = 0 then Fin (s \<and> s') 0 else to_double (v < 0) \<bar>v\<bar>)"

fun float_div_int :: "pyfloat \<Rightarrow> nat \<Rightarrow> pyfloat" where
  "float_div_int NaN d = NaN"
| "float_div_int (Inf s) d = Inf s"
| "float_div_int (Fin s a) d = to_double s (a / of_nat d)"

fun py_round :: "pyfloat \<Rightarrow> nat \<Rightarrow> pyfloat" where
  "py_round NaN nd = NaN"
| "py_round (Inf s) nd = Inf s"
| "py_round (Fin s a) nd =
     (if 323 < nd then Fin s a
      else to_double s (of_int (round_half_even (a * 10 ^ nd)) / 10 ^ nd))"

definition round_trips :: "rat \<Rightarrow> rat \<Rightarrow> bool" where
  "round_trips a c = (to_double False c = Fin False a)"

definition candidate :: "rat \<Rightarrow> nat \<Rightarrow> (int \<times> int) option" where
  "candidate a p =
     (let ue = ilog10 a - int p + 1;
          u = pow 10 ue;
          lo = \<lfloor>a / u\<rfloor>;
          hi = lo + 1;
          dl = a - of_int lo * u;
          dh = of_int hi * u - a
      in if round_trips a (of_int lo * u) \<and> round_trips a (of_int hi * u)
           then Some (if dl < dh \<or> (dl = dh \<and> even lo) then lo else hi, ue)
         else if round_trips a (of_int lo * u) then Some (lo, ue)
         else if round_trips a (of_int hi * u) then Some (hi, ue)
         else None)"

fun shortest :: "rat \<Rightarrow> nat list \<Rightarrow> int \<times> int" where
  "shortest a [] = (round_half_even (a / pow 10 (ilog10 a - 16)), ilog10 a - 16)"
| "shortest a (p # ps) = (case candidate a p of Some r \<Rightarrow> r | None \<Rightarrow> shortest a ps)"

definition strip_zeros :: "string \<Rightarrow> string" where
  "strip_zeros ds = rev (dropWhile (\<lambda>c. c = CHR ''0'') (rev ds))"

definition format_repr :: "string \<Rightarrow> int \<Rightarrow> string" where
  "format_repr ds decpt =
     (if decpt \<le> - 4 \<or> 16 < decpt then
        take 1 ds @ (if 1 < length ds then ''.'' @ drop 1 ds else [])
        @ ''e'' @ (if decpt - 1 < 0 then ''-'' else ''+'')
        @ (if \<bar>decpt - 1\<bar> < 10 then ''0'' else []) @ digits_of_int \<bar>decpt - 1\<bar>
      else if decpt \<le> 0 then ''0.'' @ replicate (nat (- decpt)) (CHR ''0'') @ ds
      else if int (length ds) \<le> decpt then ds @ replicate (nat decpt - length ds) (CHR ''0'') @ ''.0''
      else take (nat decpt) ds @ ''.'' @ drop (nat decpt) ds)"

fun float_repr :: "pyfloat \<Rightarrow> string" where
  "float_repr NaN = ''nan''"
| "float_repr (Inf s) = (if s then ''-inf'' else ''inf'')"
| "float_repr (Fin s a) =
     (if s then ''-'' else [])
     @ (if a = 0 then ''0.0''
        else let r = shortest a [1..<18];
                 ds = digits_of_int (fst r)
             in format_repr (strip_zeros ds) (int (length ds) + snd r))"



section \<open>The coordinate converter\<close>

text \<open>
  \<^verbatim>\<open>convert_to_decimal_deg(term, long_or_lat)\<close>, lines 23 to 33. Each \<^verbatim>\<open>term[i]\<close> raises
  IndexError when the string is too short, each \<^verbatim>\<open>float(...)\<close> raises ValueError on a
  string that is no float literal, in the order of the source lines. With a selector
  that is neither \<^verbatim>\<open>"lat"\<close> nor \<^verbatim>\<open>"long"\<close> no branch binds the locals and line 32
  raises UnboundLocalError on \<^verbatim>\<open>mm_1\<close>.
\<close>

definition convert_to_decimal_deg :: "string \<Rightarrow> string \<Rightarrow> exn + string" where
  "convert_to_decimal_deg term long_or_lat =
     bnd
       (if long_or_lat = ''lat'' then
          bnd (str_getitem term 0) (\<lambda>t0. bnd (str_getitem term 1) (\<lambda>t1.
          bnd (py_float [t0, t1]) (\<lambda>DD.
          bnd (str_getitem term 2) (\<lambda>t2. bnd (str_getitem term 3) (\<lambda>t3.
          bnd (str_getitem term 5) (\<lambda>t5. bnd (str_getitem term 6) (\<lambda>t6.
          Inr (DD, [t2, t3], [t5, t6]))))))))
        else if long_or_lat = ''long'' then
          bnd (str_getitem term 0) (\<lambda>t0. bnd (str_getitem term 1) (\<lambda>t1.
          bnd (str_getitem term 2) (\<lambda>t2.
          bnd (py_float [t0, t1, t2]) (\<lambda>DD.
          bnd (str_getitem term 3) (\<lambda>t3. bnd (str_getitem term 4) (\<lambda>t4.
          bnd (str_getitem term 6) (\<lambda>t6. bnd (str_getitem term 7) (\<lambda>t7.
          Inr (DD, [t3, t4], [t6, t7])))))))))
        else
          Inl (UnboundLocalError
            (''cannot access local variable '' @ py_repr ''mm_1''
              @ '' where it is not associated with a value'')))
       (\<lambda>(DD, mm_1, mm_2).
          bnd (py_float (mm_1 @ ''.'' @ mm_2)) (\<lambda>deci.
          Inr (float_repr (py_round (float_add DD (float_div_int deci 60)) 3))))"

text \<open>
  The formula the specification gives for the converter, for comparison with the code:
  the string form of \<^verbatim>\<open>round(DD + float(MM.mmmm)/60, 3)\<close>, where \<^verbatim>\<open>DD\<close> is the first \<open>k\<close>
  characters of the field (2 for a latitude, 3 for a longitude) and \<^verbatim>\<open>MM.mmmm\<close> is all
  the rest of it.
\<close>

definition spec_decimal_degrees :: "nat \<Rightarrow> string \<Rightarrow> exn + string" where
  "spec_decimal_degrees k field =
     bnd (py_float (take k field)) (\<lambda>DD.
     bnd (py_float (drop k field)) (\<lambda>minutes.
     Inr (float_repr (py_round (float_add DD (float_div_int minutes 60)) 3))))"

section \<open>The waiting indicator\<close>

definition fancy_waiting :: "string \<Rightarrow> int \<Rightarrow> string" where
  "fancy_waiting msg i =
     (if i = 0 then msg @ ''.''
      else if i = 1 then msg @ ''..''
      else if i = 2 then msg @ ''...''
      else msg @ ''...'')"

section \<open>Command line\<close>

datatype pynum = PyInt int | PyFloat pyfloat

text \<open>
  Lines 9 to 11: \<^verbatim>\<open>add_argument("-t", "--time", type=int, default=1.01)\<close>. The argument
  parser applies \<^verbatim>\<open>int\<close> to the string given for the option and, when that raises
  ValueError, reports the argument as invalid and exits with status 2. A default that
  is not a string is stored as it is. The function takes the string given for the
  option (\<open>None\<close> when the option is absent) and returns \<^verbatim>\<open>TIME_DELAY\<close> or the exit
  status with the parser's message.
\<close>

definition parse_time :: "string option \<Rightarrow> (nat \<times> string) + pynum" where
  "parse_time v =
     (case v of
        None \<Rightarrow> Inr (PyFloat (to_double False (101 / 100)))
      | Some a \<Rightarrow>
          (case py_int a of
             Inl e \<Rightarrow> Inl (2, ''argument -t/--time: invalid int value: '' @ py_repr a)
           | Inr n \<Rightarrow> Inr (PyInt n)))"

section \<open>The poll loop\<close>

definition ESC :: char where
  "ESC = CHR 0x1B"

fun py_split :: "char \<Rightarrow> string \<Rightarrow> string list" where
  "py_split sep [] = [[]]"
| "py_split sep (c # cs) =
     (if c = sep then [] # py_split sep cs
      else (case py_split sep cs of [] \<Rightarrow> [[c]] | w # ws \<Rightarrow> (c # w) # ws))"

text \<open>
  The module-level variables the loop reads and writes, with the effects of the loop
  made explicit: the records appended to \<^verbatim>\<open>debug.log\<close>, the strings passed to
  \<^verbatim>\<open>print\<close> (each call writes its string and a newline) and the arguments of the
  calls of \<^verbatim>\<open>time.sleep\<close> that completed. \<open>parts\<close> is \<open>None\<close> while the name is unbound.
  Writing to the terminal is taken to succeed. The name \<^verbatim>\<open>last_gpgll_line\<close> is a second
  reference to the list of \<^verbatim>\<open>parts\<close> that nothing reads, and has no field.
\<close>

record state =
  error :: int
  it :: int
  parts :: "string list option"
  debug_log :: "string list"
  stdout :: "string list"
  sleeps :: "pynum list"

text \<open>
  What one iteration takes from its environment: the formatted wall-clock time, the
  lines the file iterator yields (or the message of the OSError that opening the file
  raises), the message of the OSError that opening \<^verbatim>\<open>debug.log\<close> raises, if it does,
  and whether a keyboard interrupt arrives while the iteration sleeps.
\<close>

record poll =
  current_time :: string
  opened :: "string + string list"
  log_failure :: "string option"
  sigint :: bool

definition initial :: state where
  "initial = \<lparr>error = 0, it = - 1, parts = None, debug_log = [], stdout = [], sleeps = []\<rparr>"

type_synonym step = "(exn \<times> state) + state"

definition lift :: "state \<Rightarrow> exn + 'a \<Rightarrow> ('a \<Rightarrow> step) \<Rightarrow> step" where
  "lift s m f = (case m of Inl e \<Rightarrow> Inl (e, s) | Inr x \<Rightarrow> f x)"

definition with_parts :: "state \<Rightarrow> (string list \<Rightarrow> step) \<Rightarrow> step" where
  "with_parts s f =
     (case parts s of
        None \<Rightarrow> Inl (NameError (''name '' @ py_repr ''parts'' @ '' is not defined''), s)
      | Some p \<Rightarrow> f p)"

definition and_then :: "step \<Rightarrow> (state \<Rightarrow> step) \<Rightarrow> step" where
  "and_then r f = (case r of Inl x \<Rightarrow> Inl x | Inr s \<Rightarrow> f s)"

text \<open>Lines 52 to 57: the field split of the last line that starts with the tag.\<close>

definition scan_lines :: "string list \<Rightarrow> string list option \<Rightarrow> string list option" where
  "scan_lines ls p =
     fold (\<lambda>line acc. if prefix ''$GPGLL'' line then Some (py_split (CHR '','') line) else acc) ls p"

definition read_file :: "poll \<Rightarrow> state \<Rightarrow> step" where
  "read_file inp s =
     (case opened inp of
        Inl m \<Rightarrow> Inl (OSError m, s)
      | Inr ls \<Rightarrow> Inr (s\<lparr>parts := scan_lines ls (parts s)\<rparr>))"

text \<open>Lines 58 to 61: the conversion of both fields and the record for \<^verbatim>\<open>debug.log\<close>.\<close>

definition log_record :: "string \<Rightarrow> string \<Rightarrow> string \<Rightarrow> string \<Rightarrow> string \<Rightarrow> string" where
  "log_record t p1 p2 p3 p4 =
     ESC # ''[93,m'' @ t @ '', '' @ p1 @ '', '' @ p2 @ '', '' @ p3 @ '', '' @ p4 @ [CHR 0x0A]"

definition convert_fields :: "poll \<Rightarrow> state \<Rightarrow> step" where
  "convert_fields inp s =
     with_parts s (\<lambda>p.
     lift s (getitem p 1) (\<lambda>p1. if p1 = [] then Inr s else
     lift s (getitem p 3) (\<lambda>p3. if p3 = [] then Inr s else
     lift s (convert_to_decimal_deg p1 ''lat'') (\<lambda>v1.
     let s1 = s\<lparr>parts := Some (p[1 := v1])\<rparr> in
     lift s1 (convert_to_decimal_deg p3 ''long'') (\<lambda>v3.
     let q = p[1 := v1, 3 := v3]; s2 = s\<lparr>parts := Some q\<rparr> in
     lift s2 (getitem q 2) (\<lambda>p2.
     lift s2 (getitem q 4) (\<lambda>p4.
     case log_failure inp of
       Some m \<Rightarrow> Inl (OSError m, s2)
     | None \<Rightarrow>
         Inr (s2\<lparr>debug_log := debug_log s2 @ [log_record (current_time inp) v1 p2 v3 p4]\<rparr>))))))))"

text \<open>Lines 62 to 65: an empty field is replaced by the waiting indicator.\<close>

definition fill_waiting :: "state \<Rightarrow> step" where
  "fill_waiting s =
     with_parts s (\<lambda>p.
     lift s (getitem p 1) (\<lambda>p1.
     let q = (if p1 = [] then p[1 := fancy_waiting ''Waiting for data'' (it s)] else p);
         s1 = s\<lparr>parts := Some q\<rparr> in
     lift s1 (getitem q 3) (\<lambda>p3.
     Inr (s1\<lparr>parts :=
       Some (if p3 = [] then q[3 := fancy_waiting ''Waiting for data'' (it s)] else q)\<rparr>))))"

text \<open>Lines 66 to 74: the rewind distance, the clear escape, the flag and the status line.\<close>

definition status_line ::
  "string \<Rightarrow> string \<Rightarrow> string \<Rightarrow> string \<Rightarrow> string \<Rightarrow> string \<Rightarrow> string \<Rightarrow> string \<Rightarrow> string" where
  "status_line start t p1 comma p2 p3 p4 ending =
     ESC # ''[93m'' @ start @ t @ '' '' @ ESC # ''[97m| '' @ ESC # ''[92mLong: ''
     @ ESC # ''[37m'' @ p1 @ comma @ '' '' @ ESC # ''[37m'' @ p2 @ '' '' @ ESC # ''[97m| ''
     @ ESC # ''[92mLat: '' @ ESC # ''[37m'' @ p3 @ comma @ '' '' @ ESC # ''[37m'' @ p4 @ ending"

definition redraw :: "poll \<Rightarrow> state \<Rightarrow> step" where
  "redraw inp s =
     (let start = (if error s = 1 then ESC # ''[2F'' else ESC # ''[1F'');
          ending = (if error s = 1 then ESC # ''[0J'' else ESC # ''[0K'');
          s1 = (if error s = 1 then s\<lparr>error := 0\<rparr> else s)
      in with_parts s1 (\<lambda>p.
         lift s1 (getitem p 2) (\<lambda>p2.
         let comma = (if p2 \<noteq> [] then ESC # ''[97m,'' else []) in
         lift s1 (getitem p 1) (\<lambda>p1.
         lift s1 (getitem p 3) (\<lambda>p3.
         lift s1 (getitem p 4) (\<lambda>p4.
         Inr (s1\<lparr>stdout := stdout s1
           @ [status_line start (current_time inp) p1 comma p2 p3 p4 ending]\<rparr>)))))))"

text \<open>
  Line 75: \<^verbatim>\<open>time.sleep(TIME_DELAY)\<close>. The argument is converted to nanoseconds in a
  signed 64-bit integer, a float rounded away from zero (OverflowError beyond the
  range), a negative length raises ValueError, and a keyboard interrupt ends the sleep
  with KeyboardInterrupt. The system call of the sleep itself is taken to succeed.
\<close>

definition sleep_nanoseconds :: "pynum \<Rightarrow> exn + int" where
  "sleep_nanoseconds d =
     (case d of
        PyInt n \<Rightarrow>
          if n < - 9223372036 \<or> 9223372036 < n
          then Inl (OverflowError ''timestamp too large to convert to C _PyTime_t'')
          else Inr (n * 1000000000)
      | PyFloat NaN \<Rightarrow> Inl (ValueError ''Invalid value NaN (not a number)'')
      | PyFloat (Inf sg) \<Rightarrow> Inl (OverflowError ''timestamp out of range for platform time_t'')
      | PyFloat (Fin sg a) \<Rightarrow>
          (case to_double sg (a * 1000000000) of
             Fin sg' b \<Rightarrow>
               if b < 2 ^ 63 \<or> (sg' \<and> b = 2 ^ 63)
               then Inr (if sg' then - \<lceil>b\<rceil> else \<lceil>b\<rceil>)
               else Inl (OverflowError ''timestamp out of range for platform time_t'')
           | _ \<Rightarrow> Inl (OverflowError ''timestamp out of range for platform time_t'')))"

definition sleep :: "pynum \<Rightarrow> poll \<Rightarrow> state \<Rightarrow> step" where
  "sleep d inp s =
     lift s (sleep_nanoseconds d) (\<lambda>ns.
       if ns < 0 then Inl (ValueError ''sleep length must be non-negative'', s)
       else if sigint inp then Inl (KeyboardInterrupt, s)
       else Inr (s\<lparr>sleeps := sleeps s @ [d]\<rparr>))"

text \<open>
  Lines 51 to 75: the body of the \<^verbatim>\<open>try\<close>, the steps before the sleep first.
\<close>

definition work :: "poll \<Rightarrow> state \<Rightarrow> step" where
  "work inp s =
     and_then (and_then (and_then (read_file inp s) (convert_fields inp)) fill_waiting)
       (redraw inp)"

definition try_body :: "pynum \<Rightarrow> poll \<Rightarrow> state \<Rightarrow> step" where
  "try_body d inp s = and_then (work inp s) (sleep d inp)"

text \<open>Lines 76 to 80: the handler of \<^verbatim>\<open>except Exception as e\<close>.\<close>

definition error_block :: "string \<Rightarrow> exn \<Rightarrow> string list" where
  "error_block t e =
     [ESC # ''[2F'' @ t @ '' | Bits lost... Looping again...'' @ ESC # ''[K'',
      ''Error: '' @ str_exn e @ ESC # ''[K'']"

definition handler :: "poll \<Rightarrow> exn \<Rightarrow> state \<Rightarrow> state" where
  "handler inp e s = s\<lparr>stdout := stdout s @ error_block (current_time inp) e, error := 1\<rparr>"

text \<open>
  Lines 47 to 80: one iteration of \<^verbatim>\<open>while True\<close>, which first advances the counter
  (lines 47 to 49). An exception that is no instance of \<^verbatim>\<open>Exception\<close> passes the
  handler and ends the process.
\<close>

datatype outcome = Running state | Stopped exn state

definition advance :: "state \<Rightarrow> state" where
  "advance s = s\<lparr>it := (if it s = 2 then - 1 else it s) + 1\<rparr>"

definition iteration :: "pynum \<Rightarrow> poll \<Rightarrow> state \<Rightarrow> outcome" where
  "iteration d inp s =
     (case try_body d inp (advance s) of
        Inr s1 \<Rightarrow> Running s1
      | Inl (e, s1) \<Rightarrow> if is_Exception e then Running (handler inp e s1) else Stopped e s1)"

fun run :: "pynum \<Rightarrow> poll list \<Rightarrow> state \<Rightarrow> outcome" where
  "run d [] s = Running s"
| "run d (inp # inps) s =
     (case iteration d inp s of
        Running s1 \<Rightarrow> run d inps s1
      | Stopped e s1 \<Rightarrow> Stopped e s1)"

text \<open>The state an iteration leaves, whether the loop goes on or the process ends.\<close>

fun state_of :: "outcome \<Rightarrow> state" where
  "state_of (Running s) = s"
| "state_of (Stopped e s) = s"

section \<open>Properties of the waiting indicator\<close>

text \<open>
  C8: for every base message the formatter appends exactly one period when the counter
  is 0, two when it is 1, three when it is 2, and three for every other counter value.
\<close>

theorem fancy_waiting_periods:
  "fancy_waiting msg i =
     msg @ replicate (if i = 0 then 1 else if i = 1 then 2 else 3) (CHR ''.'')"
  by (simp add: fancy_waiting_def numeral_2_eq_2 numeral_3_eq_3)

section \<open>Properties of the command line\<close>

lemma in_set_dropWhile: "x \<in> set xs \<Longrightarrow> \<not> P x \<Longrightarrow> x \<in> set (dropWhile P xs)"
  by (induction xs) auto

lemma point_in_strip: "CHR ''.'' \<in> set s \<Longrightarrow> CHR ''.'' \<in> set (strip s)"
  unfolding strip_def
  by (simp add: in_set_dropWhile is_space_def)

lemma point_in_ascii: "CHR ''.'' \<in> set s \<Longrightarrow> CHR ''.'' \<in> set (map to_ascii_space s)"
proof -
  assume "CHR ''.'' \<in> set s"
  then have "to_ascii_space (CHR ''.'') \<in> to_ascii_space ` set s"
    by (rule imageI)
  then show ?thesis by (simp add: to_ascii_space_def)
qed

lemma scan_stops_at_point:
  assumes "CHR ''.'' \<in> set u"
  shows "takeWhile (\<lambda>c. is_digit c \<or> c = CHR ''_'') u \<noteq> u"
proof
  assume "takeWhile (\<lambda>c. is_digit c \<or> c = CHR ''_'') u = u"
  then have "\<forall>c \<in> set u. is_digit c \<or> c = CHR ''_''"
    by (simp add: takeWhile_eq_all_conv)
  with assms have "is_digit (CHR ''.'') \<or> CHR ''.'' = CHR ''_''" by blast
  then show False by (simp add: is_digit_def)
qed

lemma py_int_point:
  assumes "CHR ''.'' \<in> set a"
  shows "\<exists>e. py_int a = Inl e"
proof -
  let ?t = "strip (map to_ascii_space a)"
  let ?u = "if ?t \<noteq> [] \<and> (hd ?t = CHR ''-'' \<or> hd ?t = CHR ''+'') then tl ?t else ?t"
  from assms have t: "CHR ''.'' \<in> set ?t"
    by (intro point_in_strip point_in_ascii)
  have "CHR ''.'' \<in> set ?u"
  proof (cases ?t)
    case Nil
    with t show ?thesis by simp
  next
    case (Cons c r)
    with t show ?thesis by auto
  qed
  then have "takeWhile (\<lambda>c. is_digit c \<or> c = CHR ''_'') ?u \<noteq> ?u"
    by (rule scan_stops_at_point)
  then show ?thesis
    unfolding py_int_def Let_def by (simp split: if_splits)
qed

text \<open>
  C4, as amended: a value for the time option that contains a decimal point, such as
  \<^verbatim>\<open>2.99\<close>, is rejected. The parser converts the value with \<^verbatim>\<open>int\<close>, which raises on
  it, and exits with status 2 and the message that the int value is invalid; no
  interval results.
\<close>

theorem time_option_rejects_fraction:
  assumes "CHR ''.'' \<in> set a"
  shows "parse_time (Some a) = Inl (2, ''argument -t/--time: invalid int value: '' @ py_repr a)"
proof -
  from py_int_point [OF assms] obtain e where "py_int a = Inl e" by blast
  then show ?thesis by (simp add: parse_time_def)
qed

theorem time_option_rejects_fraction_witness:
  "CHR ''.'' \<in> set ''0.5'' \<and>
   parse_time (Some ''0.5'') =
     Inl (2, ''argument -t/--time: invalid int value: '' @ [CHR 0x27] @ ''0.5'' @ [CHR 0x27])"
proof -
  have h: "CHR ''.'' \<in> set ''0.5''" by simp
  have r: "py_repr ''0.5'' = [CHR 0x27] @ ''0.5'' @ [CHR 0x27]" by code_simp
  from time_option_rejects_fraction [OF h] have
    "parse_time (Some ''0.5'') =
       Inl (2, ''argument -t/--time: invalid int value: '' @ [CHR 0x27] @ ''0.5'' @ [CHR 0x27])"
    unfolding r .
  with h show ?thesis by (rule conjI)
qed

text \<open>
  The claim as stated, that \<^verbatim>\<open>--time 2.99\<close> is accepted and gives the integer 2, fails:
  the parser exits.
\<close>

theorem time_option_2_99_counterexample:
  "parse_time (Some ''2.99'') =
     Inl (2, ''argument -t/--time: invalid int value: '' @ [CHR 0x27] @ ''2.99'' @ [CHR 0x27])"
  by code_simp

section \<open>Properties of the coordinate converter\<close>

lemma digit_facts:
  assumes "is_digit c"
  shows "c \<noteq> CHR ''_''" "c \<noteq> CHR ''-''" "c \<noteq> CHR ''+''" "c \<noteq> CHR ''.''"
    "\<not> is_space c" "to_ascii_space c = c"
  using assms by (auto simp: is_digit_def is_space_def to_ascii_space_def)

lemma point_facts:
  "\<not> is_digit (CHR ''.'')" "\<not> is_space (CHR ''.'')" "to_ascii_space (CHR ''.'') = CHR ''.''"
  by (simp_all add: is_digit_def is_space_def to_ascii_space_def)

lemma py_float_digits2:
  assumes "is_digit a" and "is_digit b"
  shows "py_float [a, b] = Inr (to_double False (of_int (int_of_digits 0 [a, b])))"
  using assms
  by (simp add: py_float_def strip_def float_literal_def float_magnitude_def parse_decimal_def
      parse_exponent_def pow_def digit_facts Let_def)

lemma py_float_digits3:
  assumes "is_digit a" and "is_digit b" and "is_digit c"
  shows "py_float [a, b, c] = Inr (to_double False (of_int (int_of_digits 0 [a, b, c])))"
  using assms
  by (simp add: py_float_def strip_def float_literal_def float_magnitude_def parse_decimal_def
      parse_exponent_def pow_def digit_facts Let_def)

lemma py_float_minutes:
  assumes "is_digit a" and "is_digit b" and "is_digit c" and "is_digit d"
  shows "py_float ([a, b] @ ''.'' @ [c, d])
    = Inr (to_double False (of_int (int_of_digits 0 [a, b, c, d]) / 100))"
  using assms
  by (simp add: py_float_def strip_def float_literal_def float_magnitude_def parse_decimal_def
      parse_exponent_def pow_def digit_facts point_facts Let_def)

text \<open>
  C2: for every field of the fixed-width layout the converter reads, of a latitude,
  characters 1 and 2 as whole degrees, characters 3 and 4 as whole minutes and
  characters 6 and 7 as hundredths of a minute, whatever stands at position 5; of a
  longitude, characters 1 to 3, 4 and 5, and 7 and 8. It returns the string form of
  degrees plus minutes over 60, rounded to three decimal places. No sign is applied:
  the function takes no hemisphere and both terms are non-negative.
\<close>

theorem converter_layout:
  assumes "7 \<le> length lat"
    and "list_all is_digit [lat ! 0, lat ! 1, lat ! 2, lat ! 3, lat ! 5, lat ! 6]"
    and "8 \<le> length lon"
    and "list_all is_digit [lon ! 0, lon ! 1, lon ! 2, lon ! 3, lon ! 4, lon ! 6, lon ! 7]"
  shows
    "convert_to_decimal_deg lat ''lat'' =
       Inr (float_repr (py_round
         (float_add
           (to_double False (of_int (int_of_digits 0 [lat ! 0, lat ! 1])))
           (float_div_int
             (to_double False
               (of_int (int_of_digits 0 [lat ! 2, lat ! 3, lat ! 5, lat ! 6]) / 100)) 60)) 3))
     \<and> convert_to_decimal_deg lon ''long'' =
       Inr (float_repr (py_round
         (float_add
           (to_double False (of_int (int_of_digits 0 [lon ! 0, lon ! 1, lon ! 2])))
           (float_div_int
             (to_double False
               (of_int (int_of_digits 0 [lon ! 3, lon ! 4, lon ! 6, lon ! 7]) / 100)) 60)) 3))"
proof (rule conjI)
  from assms(2) have d: "is_digit (lat ! 0)" "is_digit (lat ! 1)" "is_digit (lat ! 2)"
    "is_digit (lat ! 3)" "is_digit (lat ! 5)" "is_digit (lat ! 6)"
    by simp_all
  from assms(1) have g: "str_getitem lat 0 = Inr (lat ! 0)" "str_getitem lat 1 = Inr (lat ! 1)"
    "str_getitem lat 2 = Inr (lat ! 2)" "str_getitem lat 3 = Inr (lat ! 3)"
    "str_getitem lat 5 = Inr (lat ! 5)" "str_getitem lat 6 = Inr (lat ! 6)"
    by (auto simp: str_getitem_def)
  show "convert_to_decimal_deg lat ''lat'' =
       Inr (float_repr (py_round
         (float_add
           (to_double False (of_int (int_of_digits 0 [lat ! 0, lat ! 1])))
           (float_div_int
             (to_double False
               (of_int (int_of_digits 0 [lat ! 2, lat ! 3, lat ! 5, lat ! 6]) / 100)) 60)) 3))"
    unfolding convert_to_decimal_deg_def g
    using py_float_digits2 [OF d(1,2)] py_float_minutes [OF d(3,4,5,6)]
    by (simp add: bnd_def)
next
  from assms(4) have d: "is_digit (lon ! 0)" "is_digit (lon ! 1)" "is_digit (lon ! 2)"
    "is_digit (lon ! 3)" "is_digit (lon ! 4)" "is_digit (lon ! 6)" "is_digit (lon ! 7)"
    by simp_all
  from assms(3) have g: "str_getitem lon 0 = Inr (lon ! 0)" "str_getitem lon 1 = Inr (lon ! 1)"
    "str_getitem lon 2 = Inr (lon ! 2)" "str_getitem lon 3 = Inr (lon ! 3)"
    "str_getitem lon 4 = Inr (lon ! 4)" "str_getitem lon 6 = Inr (lon ! 6)"
    "str_getitem lon 7 = Inr (lon ! 7)"
    by (auto simp: str_getitem_def)
  show "convert_to_decimal_deg lon ''long'' =
       Inr (float_repr (py_round
         (float_add
           (to_double False (of_int (int_of_digits 0 [lon ! 0, lon ! 1, lon ! 2])))
           (float_div_int
             (to_double False
               (of_int (int_of_digits 0 [lon ! 3, lon ! 4, lon ! 6, lon ! 7]) / 100)) 60)) 3))"
    unfolding convert_to_decimal_deg_def g
    using py_float_digits3 [OF d(1,2,3)] py_float_minutes [OF d(4,5,6,7)]
    by (simp add: bnd_def)
qed

theorem converter_layout_witness:
  "7 \<le> length ''4807.038''
   \<and> list_all is_digit ''480703''
   \<and> 8 \<le> length ''01131.000''
   \<and> list_all is_digit ''0113100''
   \<and> convert_to_decimal_deg ''4807.038'' ''lat'' = Inr ''48.117''
   \<and> convert_to_decimal_deg ''01131.000'' ''long'' = Inr ''11.517''"
proof -
  have h1: "7 \<le> length ''4807.038''" by simp
  have h2: "list_all is_digit [''4807.038'' ! 0, ''4807.038'' ! 1, ''4807.038'' ! 2,
      ''4807.038'' ! 3, ''4807.038'' ! 5, ''4807.038'' ! 6]"
    by (simp add: is_digit_def)
  have h3: "8 \<le> length ''01131.000''" by simp
  have h4: "list_all is_digit [''01131.000'' ! 0, ''01131.000'' ! 1, ''01131.000'' ! 2,
      ''01131.000'' ! 3, ''01131.000'' ! 4, ''01131.000'' ! 6, ''01131.000'' ! 7]"
    by (simp add: is_digit_def)
  have v1: "float_repr (py_round
         (float_add
           (to_double False (of_int (int_of_digits 0 [''4807.038'' ! 0, ''4807.038'' ! 1])))
           (float_div_int
             (to_double False
               (of_int (int_of_digits 0 [''4807.038'' ! 2, ''4807.038'' ! 3, ''4807.038'' ! 5,
                  ''4807.038'' ! 6]) / 100)) 60)) 3)
     = ''48.117''"
    by code_simp
  have v2: "float_repr (py_round
         (float_add
           (to_double False
             (of_int (int_of_digits 0 [''01131.000'' ! 0, ''01131.000'' ! 1, ''01131.000'' ! 2])))
           (float_div_int
             (to_double False
               (of_int (int_of_digits 0 [''01131.000'' ! 3, ''01131.000'' ! 4, ''01131.000'' ! 6,
                  ''01131.000'' ! 7]) / 100)) 60)) 3)
     = ''11.517''"
    by code_simp
  have d: "list_all is_digit ''480703''" "list_all is_digit ''0113100''"
    by (simp_all add: is_digit_def)
  from converter_layout [OF h1 h2 h3 h4]
  have "convert_to_decimal_deg ''4807.038'' ''lat'' = Inr ''48.117''
    \<and> convert_to_decimal_deg ''01131.000'' ''long'' = Inr ''11.517''"
    unfolding v1 v2 .
  with h1 h3 d show ?thesis by simp
qed

text \<open>
  C1, as amended: for every latitude field \<^verbatim>\<open>DDMM.mmmm\<close> the converter returns the string
  form of \<^verbatim>\<open>round(DD + float(MM.mm)/60, 3)\<close>, and for every longitude field
  \<^verbatim>\<open>DDDMM.mmmm\<close> that of \<^verbatim>\<open>round(DDD + float(MM.mm)/60, 3)\<close>, where \<^verbatim>\<open>MM.mm\<close> is the
  minutes cut after the second fractional digit: the result is the specification's
  formula applied to the first 7 (latitude) or 8 (longitude) characters of the field,
  and the digits after them do not contribute.
\<close>

theorem converter_truncates_minutes:
  assumes "7 \<le> length lat" and "lat ! 4 = CHR ''.''"
    and "8 \<le> length lon" and "lon ! 5 = CHR ''.''"
  shows "convert_to_decimal_deg lat ''lat'' = spec_decimal_degrees 2 (take 7 lat)
    \<and> convert_to_decimal_deg lon ''long'' = spec_decimal_degrees 3 (take 8 lon)"
proof (rule conjI)
  from assms(1) obtain a0 a1 a2 a3 a4 a5 a6 rest
    where l: "lat = a0 # a1 # a2 # a3 # a4 # a5 # a6 # rest"
    by (auto simp: Suc_le_length_iff eval_nat_numeral)
  with assms(2) have p: "a4 = CHR ''.''" by simp
  show "convert_to_decimal_deg lat ''lat'' = spec_decimal_degrees 2 (take 7 lat)"
    unfolding l p
    by (simp add: convert_to_decimal_deg_def spec_decimal_degrees_def str_getitem_def bnd_def
        eval_nat_numeral split: sum.splits)
next
  from assms(3) obtain a0 a1 a2 a3 a4 a5 a6 a7 rest
    where l: "lon = a0 # a1 # a2 # a3 # a4 # a5 # a6 # a7 # rest"
    by (auto simp: Suc_le_length_iff eval_nat_numeral)
  with assms(4) have p: "a5 = CHR ''.''" by simp
  show "convert_to_decimal_deg lon ''long'' = spec_decimal_degrees 3 (take 8 lon)"
    unfolding l p
    by (simp add: convert_to_decimal_deg_def spec_decimal_degrees_def str_getitem_def bnd_def
        eval_nat_numeral split: sum.splits)
qed

theorem converter_truncates_minutes_witness:
  "7 \<le> length ''4800.1538'' \<and> ''4800.1538'' ! 4 = CHR ''.''
   \<and> 8 \<le> length ''01100.1550'' \<and> ''01100.1550'' ! 5 = CHR ''.''
   \<and> convert_to_decimal_deg ''4800.1538'' ''lat'' = spec_decimal_degrees 2 ''4800.15''
   \<and> convert_to_decimal_deg ''01100.1550'' ''long'' = spec_decimal_degrees 3 ''01100.15''"
proof -
  have h1: "7 \<le> length ''4800.1538''" by simp
  have h2: "''4800.1538'' ! 4 = CHR ''.''" by simp
  have h3: "8 \<le> length ''01100.1550''" by simp
  have h4: "''01100.1550'' ! 5 = CHR ''.''" by simp
  from converter_truncates_minutes [OF h1 h2 h3 h4] show ?thesis by simp
qed

text \<open>
  The claim as stated fails: on the latitude \<^verbatim>\<open>4800.1538\<close> the converter returns
  \<^verbatim>\<open>48.002\<close> (from 0.15 minutes), while the formula with the full fractional minutes
  0.1538 gives \<^verbatim>\<open>48.003\<close>.
\<close>

theorem converter_full_minutes_counterexample:
  "convert_to_decimal_deg ''4800.1538'' ''lat'' = Inr ''48.002''
   \<and> spec_decimal_degrees 2 ''4800.1538'' = Inr ''48.003''"
proof (rule conjI)
  show "convert_to_decimal_deg ''4800.1538'' ''lat'' = Inr ''48.002''"
    by code_simp
  show "spec_decimal_degrees 2 ''4800.1538'' = Inr ''48.003''"
    by code_simp
qed

section \<open>Properties of the poll loop\<close>

subsection \<open>What the steps raise and what they leave unchanged\<close>

lemma bnd_Inl:
  assumes "bnd m f = Inl e"
    and "\<And>e. m = Inl e \<Longrightarrow> P e"
    and "\<And>x e. f x = Inl e \<Longrightarrow> P e"
  shows "P e"
  using assms by (cases m) (auto simp: bnd_def)

lemma str_getitem_Exception: "str_getitem s i = Inl e \<Longrightarrow> is_Exception e"
  by (auto simp: str_getitem_def split: if_splits)

lemma getitem_Exception: "getitem p i = Inl e \<Longrightarrow> is_Exception e"
  by (auto simp: getitem_def split: if_splits)

lemma py_float_Exception: "py_float s = Inl e \<Longrightarrow> is_Exception e"
  by (auto simp: py_float_def split: option.splits)

lemma convert_Exception: "convert_to_decimal_deg t sel = Inl e \<Longrightarrow> is_Exception e"
  unfolding convert_to_decimal_deg_def
  apply (erule bnd_Inl)
   apply (simp split: if_splits)
     apply (erule bnd_Inl, erule str_getitem_Exception)+
     apply (erule bnd_Inl, erule py_float_Exception)
     apply (erule bnd_Inl, erule str_getitem_Exception)+
     apply simp
     apply (erule bnd_Inl, erule str_getitem_Exception)+
     apply (erule bnd_Inl, erule py_float_Exception)
     apply (erule bnd_Inl, erule str_getitem_Exception)+
    apply simp
   apply auto[1]
  apply (clarsimp)
  apply (erule bnd_Inl, erule py_float_Exception)
  apply simp
  done

lemma read_file_Inl:
  "read_file inp s = Inl (e, s1) \<Longrightarrow> is_Exception e \<and> s1 = s"
  by (auto simp: read_file_def split: sum.splits)

lemma read_file_Inr:
  "read_file inp s = Inr s1 \<Longrightarrow>
   \<exists>ls. opened inp = Inr ls \<and> s1 = s\<lparr>parts := scan_lines ls (parts s)\<rparr>"
  by (auto simp: read_file_def split: sum.splits)

lemma convert_fields_Inl:
  "convert_fields inp s = Inl (e, s1) \<Longrightarrow>
   is_Exception e \<and> stdout s1 = stdout s \<and> sleeps s1 = sleeps s \<and> error s1 = error s
   \<and> it s1 = it s"
  by (auto simp: convert_fields_def with_parts_def lift_def Let_def
      split: option.splits sum.splits if_splits
      dest: getitem_Exception convert_Exception)

lemma convert_fields_Inr:
  "convert_fields inp s = Inr s1 \<Longrightarrow>
   stdout s1 = stdout s \<and> sleeps s1 = sleeps s \<and> error s1 = error s \<and> it s1 = it s"
  by (auto simp: convert_fields_def with_parts_def lift_def Let_def
      split: option.splits sum.splits if_splits)

lemma fill_waiting_Inl:
  "fill_waiting s = Inl (e, s1) \<Longrightarrow>
   is_Exception e \<and> stdout s1 = stdout s \<and> sleeps s1 = sleeps s \<and> error s1 = error s
   \<and> it s1 = it s"
  by (auto simp: fill_waiting_def with_parts_def lift_def Let_def
      split: option.splits sum.splits if_splits
      dest: getitem_Exception)

lemma fill_waiting_Inr:
  "fill_waiting s = Inr s1 \<Longrightarrow>
   stdout s1 = stdout s \<and> sleeps s1 = sleeps s \<and> error s1 = error s \<and> it s1 = it s
   \<and> debug_log s1 = debug_log s"
  by (auto simp: fill_waiting_def with_parts_def lift_def Let_def
      split: option.splits sum.splits if_splits)

lemma redraw_Inl:
  "redraw inp s = Inl (e, s1) \<Longrightarrow>
   is_Exception e \<and> stdout s1 = stdout s \<and> sleeps s1 = sleeps s"
  by (auto simp: redraw_def with_parts_def lift_def Let_def
      split: option.splits sum.splits if_splits
      dest: getitem_Exception)

lemma redraw_long:
  assumes "parts s = Some p" and "5 \<le> length p"
  shows "redraw inp s =
     Inr ((if error s = 1 then s\<lparr>error := 0\<rparr> else s)\<lparr>stdout := stdout s @
          [status_line (if error s = 1 then ESC # ''[2F'' else ESC # ''[1F'') (current_time inp)
             (p ! 1) (if p ! 2 \<noteq> [] then ESC # ''[97m,'' else []) (p ! 2) (p ! 3) (p ! 4)
             (if error s = 1 then ESC # ''[0J'' else ESC # ''[0K'')]\<rparr>)"
  using assms by (simp add: redraw_def with_parts_def lift_def Let_def getitem_def)

lemma redraw_short:
  assumes "parts s = Some p" and "\<not> 5 \<le> length p"
  shows "\<exists>x. redraw inp s = Inl x"
  using assms by (simp add: redraw_def with_parts_def lift_def Let_def getitem_def)

lemma redraw_unbound:
  assumes "parts s = None"
  shows "\<exists>x. redraw inp s = Inl x"
  using assms by (simp add: redraw_def with_parts_def Let_def)

lemma redraw_Inr:
  assumes "redraw inp s = Inr s1"
  shows "sleeps s1 = sleeps s \<and> debug_log s1 = debug_log s \<and> parts s1 = parts s \<and> it s1 = it s
   \<and> error s1 = (if error s = 1 then 0 else error s)
   \<and> (\<exists>p. parts s = Some p \<and> 5 \<le> length p \<and>
        stdout s1 = stdout s @
          [status_line (if error s = 1 then ESC # ''[2F'' else ESC # ''[1F'') (current_time inp)
             (p ! 1) (if p ! 2 \<noteq> [] then ESC # ''[97m,'' else []) (p ! 2) (p ! 3) (p ! 4)
             (if error s = 1 then ESC # ''[0J'' else ESC # ''[0K'')])"
proof (cases "parts s")
  case None
  from redraw_unbound [OF None, of inp] assms show ?thesis by auto
next
  case (Some p)
  show ?thesis
  proof (cases "5 \<le> length p")
    case False
    from redraw_short [OF Some False, of inp] assms show ?thesis by auto
  next
    case True
    from redraw_long [OF Some True, of inp] assms
    have "s1 = (if error s = 1 then s\<lparr>error := 0\<rparr> else s)\<lparr>stdout := stdout s @
          [status_line (if error s = 1 then ESC # ''[2F'' else ESC # ''[1F'') (current_time inp)
             (p ! 1) (if p ! 2 \<noteq> [] then ESC # ''[97m,'' else []) (p ! 2) (p ! 3) (p ! 4)
             (if error s = 1 then ESC # ''[0J'' else ESC # ''[0K'')]\<rparr>"
      by simp
    with Some True show ?thesis by simp
  qed
qed

lemma and_then_Inl:
  assumes "and_then r f = Inl x"
    and "r = Inl x \<Longrightarrow> Q"
    and "\<And>s. r = Inr s \<Longrightarrow> f s = Inl x \<Longrightarrow> Q"
  shows Q
  using assms by (cases r) (auto simp: and_then_def)

lemma and_then_Inr:
  assumes "and_then r f = Inr s1"
    and "\<And>s. r = Inr s \<Longrightarrow> f s = Inr s1 \<Longrightarrow> Q"
  shows Q
  using assms by (cases r) (auto simp: and_then_def)

lemma work_Inl:
  assumes "work inp s = Inl (e, s1)"
  shows "is_Exception e \<and> stdout s1 = stdout s \<and> sleeps s1 = sleeps s"
  using assms unfolding work_def
proof (elim and_then_Inl and_then_Inr)
  assume "read_file inp s = Inl (e, s1)"
  from read_file_Inl [OF this] show ?thesis by simp
next
  fix sa
  assume "read_file inp s = Inr sa" and "convert_fields inp sa = Inl (e, s1)"
  from read_file_Inr [OF this(1)] convert_fields_Inl [OF this(2)] show ?thesis by auto
next
  fix sa sb
  assume "read_file inp s = Inr sb" and "convert_fields inp sb = Inr sa"
    and "fill_waiting sa = Inl (e, s1)"
  from read_file_Inr [OF this(1)] convert_fields_Inr [OF this(2)] fill_waiting_Inl [OF this(3)]
  show ?thesis by auto
next
  fix sa sb sc
  assume "read_file inp s = Inr sc" and "convert_fields inp sc = Inr sb"
    and "fill_waiting sb = Inr sa" and "redraw inp sa = Inl (e, s1)"
  from read_file_Inr [OF this(1)] convert_fields_Inr [OF this(2)] fill_waiting_Inr [OF this(3)]
    redraw_Inl [OF this(4)]
  show ?thesis by auto
qed

lemma sleep_nanoseconds_Exception: "sleep_nanoseconds d = Inl e \<Longrightarrow> is_Exception e"
  by (auto simp: sleep_nanoseconds_def split: pynum.splits pyfloat.splits if_splits)

lemma sleep_Inl:
  "sleep d inp s = Inl (e, s1) \<Longrightarrow>
   s1 = s \<and> (is_Exception e \<or> e = KeyboardInterrupt \<and> sigint inp)"
  by (auto simp: sleep_def lift_def split: sum.splits if_splits
      dest: sleep_nanoseconds_Exception)

lemma sleep_Inr: "sleep d inp s = Inr s1 \<Longrightarrow> s1 = s\<lparr>sleeps := sleeps s @ [d]\<rparr>"
  by (auto simp: sleep_def lift_def split: sum.splits if_splits)

lemma try_body_Inl:
  assumes "try_body d inp s = Inl (e, s1)"
  shows "is_Exception e \<or> e = KeyboardInterrupt \<and> sigint inp"
  using assms unfolding try_body_def
proof (elim and_then_Inl)
  assume "work inp s = Inl (e, s1)"
  from work_Inl [OF this] show ?thesis by simp
next
  fix sa
  assume "sleep d inp sa = Inl (e, s1)"
  from sleep_Inl [OF this] show ?thesis by simp
qed

lemma iteration_Stopped:
  assumes "iteration d inp s = Stopped e s1"
  shows "e = KeyboardInterrupt \<and> sigint inp"
proof (cases "try_body d inp (advance s)")
  case (Inr s2)
  with assms show ?thesis by (simp add: iteration_def)
next
  case (Inl x)
  obtain e' s2 where x: "x = (e', s2)" by (cases x)
  from assms Inl x have "\<not> is_Exception e'" and "e' = e"
    by (auto simp: iteration_def split: if_splits)
  with try_body_Inl [of d inp "advance s" e' s2] Inl x show ?thesis by simp
qed

lemma iteration_Running:
  assumes "\<not> sigint inp"
  shows "\<exists>s1. iteration d inp s = Running s1"
proof (cases "iteration d inp s")
  case (Running s1)
  then show ?thesis by simp
next
  case (Stopped e s1)
  from iteration_Stopped [OF this] assms show ?thesis by simp
qed

subsection \<open>Errors and the handler\<close>

lemma run_Running:
  assumes "\<forall>inp \<in> set inps. \<not> sigint inp"
  shows "\<exists>s1. run d inps s = Running s1"
  using assms
proof (induction inps arbitrary: s)
  case Nil
  show ?case by simp
next
  case (Cons inp inps)
  then have "\<not> sigint inp" by simp
  from iteration_Running [OF this] obtain s1 where "iteration d inp s = Running s1" by blast
  moreover from Cons obtain s2 where "run d inps s1 = Running s2" by auto
  ultimately show ?case by simp
qed

lemma unbound_parts_handled:
  assumes "parts s = None" and "opened inp = Inr ls" and "scan_lines ls None = None"
  shows "iteration d inp s =
    Running (handler inp (NameError (''name '' @ py_repr ''parts'' @ '' is not defined''))
      (advance s))"
proof -
  from assms(1) have a: "parts (advance s) = None" by (simp add: advance_def)
  then have u: "(advance s)\<lparr>parts := None\<rparr> = advance s" by (cases "advance s") simp
  from assms(2,3) a u have "read_file inp (advance s) = Inr (advance s)"
    by (simp add: read_file_def)
  moreover from a have "convert_fields inp (advance s) =
    Inl (NameError (''name '' @ py_repr ''parts'' @ '' is not defined''), advance s)"
    by (simp add: convert_fields_def with_parts_def)
  ultimately have "try_body d inp (advance s) =
    Inl (NameError (''name '' @ py_repr ''parts'' @ '' is not defined''), advance s)"
    by (simp add: try_body_def work_def and_then_def)
  then show ?thesis by (simp add: iteration_def)
qed

text \<open>
  C3, as amended: with the writes to the terminal taken to succeed, no error is ever
  fatal, an error before the first successful iteration included. The two prints of
  the handler (lines 77 and 78) are outside every \<^verbatim>\<open>try\<close> statement, so an exception
  raised by a write there would end the process; that case apart, every exception
  raised in an iteration that is an instance of \<^verbatim>\<open>Exception\<close> is caught. The NameError of
  an iteration that finds no parsed field split (no matching line read so far) is
  caught by the handler of \<^verbatim>\<open>except Exception\<close> like every other error: the error block is
  printed, the flag is set and the loop goes on. Over every finite sequence of polls
  without a keyboard interrupt the loop is still running, and an iteration ends the
  process only when a keyboard interrupt arrives: only external termination stops the
  loop.
\<close>

theorem no_error_is_fatal:
  "((\<forall>inp \<in> set inps. \<not> sigint inp) \<longrightarrow> (\<exists>s1. run d inps s = Running s1))
   \<and> (parts s = None \<and> opened inp = Inr ls \<and> scan_lines ls None = None \<longrightarrow>
        iteration d inp s =
          Running (handler inp (NameError (''name '' @ py_repr ''parts'' @ '' is not defined''))
            (advance s)))
   \<and> (iteration d inp s = Stopped x sx \<longrightarrow> x = KeyboardInterrupt \<and> sigint inp)"
  using run_Running [of inps d s] unbound_parts_handled [of s inp ls d]
    iteration_Stopped [of d inp s x sx]
  by blast

theorem no_error_is_fatal_witness:
  "(\<exists>s1. run (PyInt 1)
         [\<lparr>current_time = ''12:00:00'', opened = Inr [], log_failure = None, sigint = False\<rparr>,
          \<lparr>current_time = ''12:00:01'', opened = Inl ''[Errno 2] No such file or directory'',
             log_failure = None, sigint = False\<rparr>] initial = Running s1)
   \<and> iteration (PyInt 1)
        \<lparr>current_time = ''12:00:00'', opened = Inr [], log_failure = None, sigint = False\<rparr>
        initial
     = Running
        \<lparr>error = 1, it = 0, parts = None, debug_log = [],
           stdout = [ESC # ''[2F12:00:00 | Bits lost... Looping again...'' @ ESC # ''[K'',
                     ''Error: name '' @ [CHR 0x27] @ ''parts'' @ [CHR 0x27] @ '' is not defined''
                       @ ESC # ''[K''],
           sleeps = []\<rparr>"
proof -
  let ?a = "\<lparr>current_time = ''12:00:00'', opened = Inr [], log_failure = None, sigint = False\<rparr>"
  let ?b = "\<lparr>current_time = ''12:00:01'', opened = Inl ''[Errno 2] No such file or directory'',
             log_failure = None, sigint = False\<rparr>"
  have h1: "\<forall>inp \<in> set [?a, ?b]. \<not> sigint inp" by simp
  have h2: "parts initial = None \<and> opened ?a = Inr [] \<and> scan_lines [] None = None"
    by (simp add: initial_def scan_lines_def)
  have r: "py_repr ''parts'' = [CHR 0x27] @ ''parts'' @ [CHR 0x27]" by code_simp
  from no_error_is_fatal [of "[?a, ?b]" "PyInt 1" initial ?a "[]"] h1 h2
  have "(\<exists>s1. run (PyInt 1) [?a, ?b] initial = Running s1)
    \<and> iteration (PyInt 1) ?a initial =
      Running (handler ?a (NameError (''name '' @ py_repr ''parts'' @ '' is not defined''))
        (advance initial))"
    by blast
  then have e: "\<exists>s1. run (PyInt 1) [?a, ?b] initial = Running s1"
    and i: "iteration (PyInt 1) ?a initial =
      Running (handler ?a (NameError (''name '' @ py_repr ''parts'' @ '' is not defined''))
        (advance initial))"
    by blast+
  from i have "iteration (PyInt 1) ?a initial
     = Running
        \<lparr>error = 1, it = 0, parts = None, debug_log = [],
           stdout = [ESC # ''[2F12:00:00 | Bits lost... Looping again...'' @ ESC # ''[K'',
                     ''Error: name '' @ [CHR 0x27] @ ''parts'' @ [CHR 0x27] @ '' is not defined''
                       @ ESC # ''[K''],
           sleeps = []\<rparr>"
    unfolding r by (simp add: handler_def advance_def initial_def error_block_def)
  with e show ?thesis by (rule conjI)
qed

text \<open>
  The claim as stated fails: on the first iteration, with a file that holds no matching
  line, the reference error is raised and handled; the process does not stop.
\<close>

theorem first_error_is_handled_counterexample:
  "iteration (PyInt 1)
     \<lparr>current_time = ''12:00:00'', opened = Inr [''$GPGGA,123519,4807.038,N'' @ [CHR 0x0A]],
      log_failure = None, sigint = False\<rparr> initial
   = Running
     \<lparr>error = 1, it = 0, parts = None, debug_log = [],
      stdout = [ESC # ''[2F12:00:00 | Bits lost... Looping again...'' @ ESC # ''[K'',
                ''Error: name '' @ [CHR 0x27] @ ''parts'' @ [CHR 0x27] @ '' is not defined''
                  @ ESC # ''[K''],
      sleeps = []\<rparr>"
  by code_simp

text \<open>
  C7: for every failure raised by the steps of an iteration before the sleep (opening
  and scanning the file, indexing the fields, converting, drawing), the handler prints
  the two-line error block, whose first line rewinds two lines, sets the error flag to
  1 for the next iteration, and the loop restarts at once: no sleep has been executed.
\<close>

theorem failure_handled:
  assumes "work inp (advance s) = Inl (e, s1)"
  shows "iteration d inp s =
           Running (s1\<lparr>stdout := stdout s @
             [ESC # ''[2F'' @ current_time inp @ '' | Bits lost... Looping again...'' @ ESC # ''[K'',
              ''Error: '' @ str_exn e @ ESC # ''[K''], error := 1\<rparr>)
         \<and> sleeps s1 = sleeps s"
proof -
  from work_Inl [OF assms] have e: "is_Exception e" and o: "stdout s1 = stdout s"
    and sl: "sleeps s1 = sleeps s"
    by (simp_all add: advance_def)
  from assms have "try_body d inp (advance s) = Inl (e, s1)"
    by (simp add: try_body_def and_then_def)
  with e o sl show ?thesis
    by (simp add: iteration_def handler_def error_block_def)
qed

theorem failure_handled_witness:
  "work \<lparr>current_time = ''12:00:00'', opened = Inl ''[Errno 2] No such file or directory'',
          log_failure = None, sigint = False\<rparr> (advance initial)
     = Inl (OSError ''[Errno 2] No such file or directory'', advance initial)
   \<and> iteration (PyInt 1)
       \<lparr>current_time = ''12:00:00'', opened = Inl ''[Errno 2] No such file or directory'',
          log_failure = None, sigint = False\<rparr> initial
     = Running \<lparr>error = 1, it = 0, parts = None, debug_log = [],
         stdout = [ESC # ''[2F12:00:00 | Bits lost... Looping again...'' @ ESC # ''[K'',
                   ''Error: [Errno 2] No such file or directory'' @ ESC # ''[K''],
         sleeps = []\<rparr>"
proof -
  have w: "work \<lparr>current_time = ''12:00:00'', opened = Inl ''[Errno 2] No such file or directory'',
          log_failure = None, sigint = False\<rparr> (advance initial)
     = Inl (OSError ''[Errno 2] No such file or directory'', advance initial)"
    by (simp add: work_def read_file_def and_then_def)
  from failure_handled [OF w, of "PyInt 1"] w show ?thesis
    by (simp add: advance_def initial_def)
qed

subsection \<open>Empty coordinate fields\<close>

lemma scan_lines_fresh:
  "scan_lines ls None = Some p \<Longrightarrow> scan_lines ls q = Some p"
  unfolding scan_lines_def
  by (induction ls arbitrary: q) (auto split: if_splits)

lemma empty_field_not_converted:
  assumes "parts s = Some p"
    and "1 < length p \<and> p ! 1 = [] \<or> 3 < length p \<and> p ! 3 = []"
  shows "convert_fields inp s = Inr s"
  using assms
  by (auto simp: convert_fields_def with_parts_def lift_def getitem_def)

lemma work_empty_field:
  assumes "opened inp = Inr ls" and "scan_lines ls (parts s) = Some p" and "5 \<le> length p"
    and "p ! 1 = [] \<or> p ! 3 = []"
  shows "\<exists>s1. work inp s = Inr s1 \<and> debug_log s1 = debug_log s \<and> sleeps s1 = sleeps s
    \<and> stdout s1 = stdout s @
        [status_line (if error s = 1 then ESC # ''[2F'' else ESC # ''[1F'') (current_time inp)
           (if p ! 1 = [] then fancy_waiting ''Waiting for data'' (it s) else p ! 1)
           (if p ! 2 \<noteq> [] then ESC # ''[97m,'' else []) (p ! 2)
           (if p ! 3 = [] then fancy_waiting ''Waiting for data'' (it s) else p ! 3)
           (p ! 4)
           (if error s = 1 then ESC # ''[0J'' else ESC # ''[0K'')]"
proof -
  let ?sa = "s\<lparr>parts := Some p\<rparr>"
  let ?w = "fancy_waiting ''Waiting for data'' (it s)"
  let ?q = "p[1 := (if p ! 1 = [] then ?w else p ! 1), 3 := (if p ! 3 = [] then ?w else p ! 3)]"
  let ?sb = "s\<lparr>parts := Some ?q\<rparr>"
  from assms(1,2) have r: "read_file inp s = Inr ?sa"
    by (simp add: read_file_def)
  from assms(3,4) have c: "convert_fields inp ?sa = Inr ?sa"
    by (auto simp: convert_fields_def with_parts_def lift_def getitem_def)
  from assms(3) have f: "fill_waiting ?sa = Inr ?sb"
    by (auto simp: fill_waiting_def with_parts_def lift_def getitem_def Let_def list_update_swap)
  from assms(3) have l: "parts ?sb = Some ?q" "5 \<le> length ?q" by simp_all
  have w: "work inp s = redraw inp ?sb"
    by (simp add: work_def and_then_def r c f)
  from assms(3) show ?thesis
    unfolding w redraw_long [OF l] by auto
qed

lemma redraw_four:
  assumes "parts s = Some p" and "length p = 4"
  shows "redraw inp s =
    Inl (IndexError ''list index out of range'', if error s = 1 then s\<lparr>error := 0\<rparr> else s)"
  using assms by (simp add: redraw_def with_parts_def lift_def Let_def getitem_def)

lemma work_short_line:
  assumes "opened inp = Inr ls" and "scan_lines ls (parts s) = Some p" and "length p < 5"
    and "1 < length p \<and> p ! 1 = [] \<or> 3 < length p \<and> p ! 3 = []"
  shows "\<exists>sx. work inp s = Inl (IndexError ''list index out of range'', sx)
    \<and> debug_log sx = debug_log s"
proof -
  let ?sa = "s\<lparr>parts := Some p\<rparr>"
  let ?w = "fancy_waiting ''Waiting for data'' (it s)"
  from assms(1,2) have r: "read_file inp s = Inr ?sa"
    by (simp add: read_file_def)
  have "parts ?sa = Some p" by simp
  from empty_field_not_converted [OF this assms(4)]
  have c: "convert_fields inp ?sa = Inr ?sa" .
  show ?thesis
  proof (cases "length p = 4")
    case True
    let ?q = "p[1 := (if p ! 1 = [] then ?w else p ! 1), 3 := (if p ! 3 = [] then ?w else p ! 3)]"
    let ?sb = "s\<lparr>parts := Some ?q\<rparr>"
    from True have f: "fill_waiting ?sa = Inr ?sb"
      by (auto simp: fill_waiting_def with_parts_def lift_def getitem_def Let_def
          list_update_swap)
    from True have l: "parts ?sb = Some ?q" "length ?q = 4" by simp_all
    have w: "work inp s = redraw inp ?sb"
      by (simp add: work_def and_then_def r c f)
    show ?thesis
      unfolding w redraw_four [OF l] by simp
  next
    case False
    with assms(3,4) have e: "1 < length p" "p ! 1 = []" "length p \<le> 3" by auto
    then have f: "fill_waiting ?sa =
      Inl (IndexError ''list index out of range'', s\<lparr>parts := Some (p[1 := ?w])\<rparr>)"
      by (simp add: fill_waiting_def with_parts_def lift_def getitem_def Let_def)
    show ?thesis
      by (simp add: work_def and_then_def r c f)
  qed
qed

lemma iteration_after_work:
  assumes "work inp (advance s) = Inr s1"
  shows "debug_log (state_of (iteration d inp s)) = debug_log s1
    \<and> parts (state_of (iteration d inp s)) = parts s1
    \<and> prefix (stdout s1) (stdout (state_of (iteration d inp s)))"
proof (cases "sleep d inp s1")
  case (Inr s2)
  from sleep_Inr [OF Inr] assms Inr show ?thesis
    by (simp add: iteration_def try_body_def and_then_def)
next
  case (Inl x)
  obtain e s2 where x: "x = (e, s2)" by (cases x)
  from sleep_Inl [of d inp s1 e s2] Inl x have "s2 = s1" by simp
  with assms Inl x show ?thesis
    by (simp add: iteration_def try_body_def and_then_def handler_def)
qed

lemma first_printed:
  assumes "prefix (xs @ [l]) ys"
  shows "ys ! length xs = l"
proof -
  from assms obtain zs where "ys = (xs @ [l]) @ zs" by (auto simp: prefix_def)
  then show ?thesis by simp
qed

lemma handled_again:
  assumes "work inp (advance s) = Inl (e, sy)"
  shows "iteration d inp s = Running (handler inp e sy) \<and> error (handler inp e sy) = 1
    \<and> stdout (handler inp e sy) = stdout s @ error_block (current_time inp) e
    \<and> debug_log (handler inp e sy) = debug_log sy"
proof -
  from work_Inl [OF assms] have e: "is_Exception e" and o: "stdout sy = stdout s"
    by (simp_all add: advance_def)
  from assms have "try_body d inp (advance s) = Inl (e, sy)"
    by (simp add: try_body_def and_then_def)
  with e o show ?thesis
    by (simp add: iteration_def handler_def)
qed

lemma short_line_error_block:
  assumes "opened inp = Inr ls" and "scan_lines ls None = Some p" and "length p < 5"
    and "1 < length p \<and> p ! 1 = [] \<or> 3 < length p \<and> p ! 3 = []"
  shows "\<exists>sx. iteration d inp s = Running sx \<and> error sx = 1 \<and> debug_log sx = debug_log s
    \<and> stdout sx = stdout s @
        error_block (current_time inp) (IndexError ''list index out of range'')"
proof -
  from assms(2) have "scan_lines ls (parts (advance s)) = Some p"
    by (rule scan_lines_fresh)
  from work_short_line [OF assms(1) this assms(3,4)]
  obtain sy where w: "work inp (advance s) = Inl (IndexError ''list index out of range'', sy)"
    and l: "debug_log sy = debug_log (advance s)"
    by blast
  have a: "debug_log (advance s) = debug_log s" by (simp add: advance_def)
  from handled_again [OF w, of d] l a show ?thesis by simp
qed

text \<open>
  C5, as amended: in every iteration whose most recent matching line has an empty
  latitude or longitude field, no conversion takes place and nothing is appended to
  \<^verbatim>\<open>debug.log\<close>. When that line has at least five fields, the status line, the first
  string the iteration prints, shows the waiting indicator for each empty axis and the
  field as read for the other. When it has fewer than five fields, no status line is
  drawn: reading the field that is not there raises IndexError, and the iteration
  prints the error block and sets the error flag.
\<close>

theorem empty_field_shows_waiting:
  assumes "opened inp = Inr ls" and "scan_lines ls None = Some p"
    and "1 < length p \<and> p ! 1 = [] \<or> 3 < length p \<and> p ! 3 = []"
  shows "convert_fields inp ((advance s)\<lparr>parts := Some p\<rparr>) = Inr ((advance s)\<lparr>parts := Some p\<rparr>)
    \<and> debug_log (state_of (iteration d inp s)) = debug_log s
    \<and> (5 \<le> length p \<longrightarrow>
        prefix
          (stdout s @
            [status_line (if error s = 1 then ESC # ''[2F'' else ESC # ''[1F'') (current_time inp)
               (if p ! 1 = [] then fancy_waiting ''Waiting for data'' (it (advance s)) else p ! 1)
               (if p ! 2 \<noteq> [] then ESC # ''[97m,'' else []) (p ! 2)
               (if p ! 3 = [] then fancy_waiting ''Waiting for data'' (it (advance s)) else p ! 3)
               (p ! 4)
               (if error s = 1 then ESC # ''[0J'' else ESC # ''[0K'')])
          (stdout (state_of (iteration d inp s))))
    \<and> (length p < 5 \<longrightarrow>
        (\<exists>sx. iteration d inp s = Running sx \<and> error sx = 1
           \<and> stdout sx = stdout s @
               error_block (current_time inp) (IndexError ''list index out of range'')))"
proof (intro conjI impI)
  have "parts ((advance s)\<lparr>parts := Some p\<rparr>) = Some p" by simp
  from empty_field_not_converted [OF this assms(3)]
  show "convert_fields inp ((advance s)\<lparr>parts := Some p\<rparr>) = Inr ((advance s)\<lparr>parts := Some p\<rparr>)" .
  have a: "debug_log (advance s) = debug_log s" "stdout (advance s) = stdout s"
    "error (advance s) = error s"
    by (simp_all add: advance_def)
  from assms(2) have f: "scan_lines ls (parts (advance s)) = Some p"
    by (rule scan_lines_fresh)
  {
    assume long: "5 \<le> length p"
    with assms(3) have "p ! 1 = [] \<or> p ! 3 = []" by blast
    from work_empty_field [OF assms(1) f long this]
    obtain s1 where w: "work inp (advance s) = Inr s1"
      and l: "debug_log s1 = debug_log (advance s)"
      and o: "stdout s1 = stdout (advance s) @
          [status_line (if error (advance s) = 1 then ESC # ''[2F'' else ESC # ''[1F'')
             (current_time inp)
             (if p ! 1 = [] then fancy_waiting ''Waiting for data'' (it (advance s)) else p ! 1)
             (if p ! 2 \<noteq> [] then ESC # ''[97m,'' else []) (p ! 2)
             (if p ! 3 = [] then fancy_waiting ''Waiting for data'' (it (advance s)) else p ! 3)
             (p ! 4)
             (if error (advance s) = 1 then ESC # ''[0J'' else ESC # ''[0K'')]"
      by blast
    from iteration_after_work [OF w, of d] l o
    have "debug_log (state_of (iteration d inp s)) = debug_log s
      \<and> prefix
          (stdout s @
            [status_line (if error s = 1 then ESC # ''[2F'' else ESC # ''[1F'') (current_time inp)
               (if p ! 1 = [] then fancy_waiting ''Waiting for data'' (it (advance s)) else p ! 1)
               (if p ! 2 \<noteq> [] then ESC # ''[97m,'' else []) (p ! 2)
               (if p ! 3 = [] then fancy_waiting ''Waiting for data'' (it (advance s)) else p ! 3)
               (p ! 4)
               (if error s = 1 then ESC # ''[0J'' else ESC # ''[0K'')])
          (stdout (state_of (iteration d inp s)))"
      unfolding a by simp
  }
  note long = this
  {
    assume "length p < 5"
    from short_line_error_block [OF assms(1,2) this assms(3), of d s]
    have "\<exists>sx. iteration d inp s = Running sx \<and> error sx = 1 \<and> debug_log sx = debug_log s
      \<and> stdout sx = stdout s @
          error_block (current_time inp) (IndexError ''list index out of range'')" .
  }
  note short = this
  show "debug_log (state_of (iteration d inp s)) = debug_log s"
  proof (cases "5 \<le> length p")
    case True
    from long [OF True] show ?thesis by simp
  next
    case False
    then have "length p < 5" by simp
    from short [OF this] show ?thesis by auto
  qed
  {
    assume "5 \<le> length p"
    from long [OF this]
    show "prefix
          (stdout s @
            [status_line (if error s = 1 then ESC # ''[2F'' else ESC # ''[1F'') (current_time inp)
               (if p ! 1 = [] then fancy_waiting ''Waiting for data'' (it (advance s)) else p ! 1)
               (if p ! 2 \<noteq> [] then ESC # ''[97m,'' else []) (p ! 2)
               (if p ! 3 = [] then fancy_waiting ''Waiting for data'' (it (advance s)) else p ! 3)
               (p ! 4)
               (if error s = 1 then ESC # ''[0J'' else ESC # ''[0K'')])
          (stdout (state_of (iteration d inp s)))"
      by simp
  }
  {
    assume "length p < 5"
    from short [OF this]
    show "\<exists>sx. iteration d inp s = Running sx \<and> error sx = 1
           \<and> stdout sx = stdout s @
               error_block (current_time inp) (IndexError ''list index out of range'')"
      by blast
  }
qed

theorem empty_field_shows_waiting_witness:
  "scan_lines [''$GPGLL,,N,01131.000,E,225444,A'' @ [CHR 0x0A]] None
     = Some [''$GPGLL'', [], ''N'', ''01131.000'', ''E'', ''225444'', ''A'' @ [CHR 0x0A]]
   \<and> debug_log (state_of (iteration (PyInt 1)
        \<lparr>current_time = ''12:00:00'',
           opened = Inr [''$GPGLL,,N,01131.000,E,225444,A'' @ [CHR 0x0A]],
           log_failure = None, sigint = False\<rparr> initial)) = []
   \<and> prefix
       [ESC # ''[93m'' @ ESC # ''[1F12:00:00 '' @ ESC # ''[97m| '' @ ESC # ''[92mLong: ''
        @ ESC # ''[37mWaiting for data.'' @ ESC # ''[97m, '' @ ESC # ''[37mN '' @ ESC # ''[97m| ''
        @ ESC # ''[92mLat: '' @ ESC # ''[37m01131.000'' @ ESC # ''[97m, '' @ ESC # ''[37mE''
        @ ESC # ''[0K'']
       (stdout (state_of (iteration (PyInt 1)
        \<lparr>current_time = ''12:00:00'',
           opened = Inr [''$GPGLL,,N,01131.000,E,225444,A'' @ [CHR 0x0A]],
           log_failure = None, sigint = False\<rparr> initial)))
   \<and> scan_lines [''$GPGLL,,N'' @ [CHR 0x0A]] None = Some [''$GPGLL'', [], ''N'' @ [CHR 0x0A]]
   \<and> debug_log (state_of (iteration (PyInt 1)
        \<lparr>current_time = ''12:00:00'', opened = Inr [''$GPGLL,,N'' @ [CHR 0x0A]],
           log_failure = None, sigint = False\<rparr> initial)) = []
   \<and> (\<exists>sx. iteration (PyInt 1)
        \<lparr>current_time = ''12:00:00'', opened = Inr [''$GPGLL,,N'' @ [CHR 0x0A]],
           log_failure = None, sigint = False\<rparr> initial = Running sx
        \<and> error sx = 1
        \<and> stdout sx =
            [ESC # ''[2F12:00:00 | Bits lost... Looping again...'' @ ESC # ''[K'',
             ''Error: list index out of range'' @ ESC # ''[K''])"
proof -
  let ?inp = "\<lparr>current_time = ''12:00:00'',
           opened = Inr [''$GPGLL,,N,01131.000,E,225444,A'' @ [CHR 0x0A]],
           log_failure = None, sigint = False\<rparr>"
  let ?p = "[''$GPGLL'', [], ''N'', ''01131.000'', ''E'', ''225444'', ''A'' @ [CHR 0x0A]]"
  have h1: "opened ?inp = Inr [''$GPGLL,,N,01131.000,E,225444,A'' @ [CHR 0x0A]]" by simp
  have h2: "scan_lines [''$GPGLL,,N,01131.000,E,225444,A'' @ [CHR 0x0A]] None = Some ?p"
    by (simp add: scan_lines_def)
  have h3: "1 < length ?p \<and> ?p ! 1 = [] \<or> 3 < length ?p \<and> ?p ! 3 = []" by simp
  from empty_field_shows_waiting [OF h1 h2 h3, of initial "PyInt 1"] h2
  have long: "scan_lines [''$GPGLL,,N,01131.000,E,225444,A'' @ [CHR 0x0A]] None = Some ?p
   \<and> debug_log (state_of (iteration (PyInt 1) ?inp initial)) = []
   \<and> prefix
       [ESC # ''[93m'' @ ESC # ''[1F12:00:00 '' @ ESC # ''[97m| '' @ ESC # ''[92mLong: ''
        @ ESC # ''[37mWaiting for data.'' @ ESC # ''[97m, '' @ ESC # ''[37mN '' @ ESC # ''[97m| ''
        @ ESC # ''[92mLat: '' @ ESC # ''[37m01131.000'' @ ESC # ''[97m, '' @ ESC # ''[37mE''
        @ ESC # ''[0K'']
       (stdout (state_of (iteration (PyInt 1) ?inp initial)))"
    by (simp add: initial_def advance_def fancy_waiting_def status_line_def)
  let ?inq = "\<lparr>current_time = ''12:00:00'', opened = Inr [''$GPGLL,,N'' @ [CHR 0x0A]],
           log_failure = None, sigint = False\<rparr>"
  let ?q = "[''$GPGLL'', [], ''N'' @ [CHR 0x0A]]"
  have k1: "opened ?inq = Inr [''$GPGLL,,N'' @ [CHR 0x0A]]" by simp
  have k2: "scan_lines [''$GPGLL,,N'' @ [CHR 0x0A]] None = Some ?q"
    by (simp add: scan_lines_def)
  have k3: "1 < length ?q \<and> ?q ! 1 = [] \<or> 3 < length ?q \<and> ?q ! 3 = []" by simp
  from empty_field_shows_waiting [OF k1 k2 k3, of initial "PyInt 1"] k2
  have short: "scan_lines [''$GPGLL,,N'' @ [CHR 0x0A]] None = Some ?q
   \<and> debug_log (state_of (iteration (PyInt 1) ?inq initial)) = []
   \<and> (\<exists>sx. iteration (PyInt 1) ?inq initial = Running sx
        \<and> error sx = 1
        \<and> stdout sx =
            [ESC # ''[2F12:00:00 | Bits lost... Looping again...'' @ ESC # ''[K'',
             ''Error: list index out of range'' @ ESC # ''[K''])"
    by (simp add: initial_def error_block_def)
  from long short show ?thesis by blast
qed

text \<open>
  The claim as stated fails on a most recent matching line with fewer than five
  fields: on \<^verbatim>\<open>$GPGLL,,N\<close> the latitude is empty and replaced by the waiting indicator,
  then line 64 reads a longitude field that is not there; the iteration draws no status
  line and prints the error block.
\<close>

theorem empty_field_short_line_counterexample:
  "iteration (PyInt 1)
     \<lparr>current_time = ''12:00:00'', opened = Inr [''$GPGLL,,N'' @ [CHR 0x0A]],
        log_failure = None, sigint = False\<rparr> initial
   = Running
      \<lparr>error = 1, it = 0,
         parts = Some [''$GPGLL'', ''Waiting for data.'', ''N'' @ [CHR 0x0A]],
         debug_log = [],
         stdout =
           [ESC # ''[2F12:00:00 | Bits lost... Looping again...'' @ ESC # ''[K'',
            ''Error: list index out of range'' @ ESC # ''[K''],
         sleeps = []\<rparr>"
  by code_simp

text \<open>
  C10, as amended: in every iteration whose most recent matching line has exactly one
  of the two coordinate fields empty and at least five fields, the status line shows
  the other field as the raw degrees-minutes string read from the file, not converted,
  next to the waiting indicator of the empty one. When that line has fewer than five
  fields, the non-empty field is not rendered at all: reading the field that is not
  there raises IndexError, and the iteration prints the error block instead of a status
  line.
\<close>

theorem one_empty_field_other_raw:
  assumes "opened inp = Inr ls" and "scan_lines ls None = Some p"
    and "(1 < length p \<and> p ! 1 = []) \<noteq> (3 < length p \<and> p ! 3 = [])"
  shows
    "(5 \<le> length p \<and> p ! 3 = [] \<longrightarrow>
        prefix
          (stdout s @
            [status_line (if error s = 1 then ESC # ''[2F'' else ESC # ''[1F'') (current_time inp)
               (p ! 1) (if p ! 2 \<noteq> [] then ESC # ''[97m,'' else []) (p ! 2)
               (fancy_waiting ''Waiting for data'' (it (advance s))) (p ! 4)
               (if error s = 1 then ESC # ''[0J'' else ESC # ''[0K'')])
          (stdout (state_of (iteration d inp s))))
     \<and> (5 \<le> length p \<and> p ! 1 = [] \<longrightarrow>
        prefix
          (stdout s @
            [status_line (if error s = 1 then ESC # ''[2F'' else ESC # ''[1F'') (current_time inp)
               (fancy_waiting ''Waiting for data'' (it (advance s)))
               (if p ! 2 \<noteq> [] then ESC # ''[97m,'' else []) (p ! 2) (p ! 3) (p ! 4)
               (if error s = 1 then ESC # ''[0J'' else ESC # ''[0K'')])
          (stdout (state_of (iteration d inp s))))
     \<and> (length p < 5 \<longrightarrow>
        (\<exists>sx. iteration d inp s = Running sx \<and> error sx = 1
           \<and> stdout sx = stdout s @
               error_block (current_time inp) (IndexError ''list index out of range'')))"
proof -
  from assms(3) have e: "1 < length p \<and> p ! 1 = [] \<or> 3 < length p \<and> p ! 3 = []" by blast
  {
    assume long: "5 \<le> length p"
    from assms(2) have f: "scan_lines ls (parts (advance s)) = Some p"
      by (rule scan_lines_fresh)
    from e have "p ! 1 = [] \<or> p ! 3 = []" by blast
    from work_empty_field [OF assms(1) f long this]
    obtain s1 where w: "work inp (advance s) = Inr s1"
      and o: "stdout s1 = stdout (advance s) @
          [status_line (if error (advance s) = 1 then ESC # ''[2F'' else ESC # ''[1F'')
             (current_time inp)
             (if p ! 1 = [] then fancy_waiting ''Waiting for data'' (it (advance s)) else p ! 1)
             (if p ! 2 \<noteq> [] then ESC # ''[97m,'' else []) (p ! 2)
             (if p ! 3 = [] then fancy_waiting ''Waiting for data'' (it (advance s)) else p ! 3)
             (p ! 4)
             (if error (advance s) = 1 then ESC # ''[0J'' else ESC # ''[0K'')]"
      by blast
    have a: "stdout (advance s) = stdout s" "error (advance s) = error s"
      by (simp_all add: advance_def)
    from iteration_after_work [OF w, of d]
    have p: "prefix (stdout s1) (stdout (state_of (iteration d inp s)))" by simp
    from long assms(3) have x: "(p ! 1 = []) \<noteq> (p ! 3 = [])" by auto
    have "(p ! 3 = [] \<longrightarrow>
        prefix
          (stdout s @
            [status_line (if error s = 1 then ESC # ''[2F'' else ESC # ''[1F'') (current_time inp)
               (p ! 1) (if p ! 2 \<noteq> [] then ESC # ''[97m,'' else []) (p ! 2)
               (fancy_waiting ''Waiting for data'' (it (advance s))) (p ! 4)
               (if error s = 1 then ESC # ''[0J'' else ESC # ''[0K'')])
          (stdout (state_of (iteration d inp s))))
     \<and> (p ! 1 = [] \<longrightarrow>
        prefix
          (stdout s @
            [status_line (if error s = 1 then ESC # ''[2F'' else ESC # ''[1F'') (current_time inp)
               (fancy_waiting ''Waiting for data'' (it (advance s)))
               (if p ! 2 \<noteq> [] then ESC # ''[97m,'' else []) (p ! 2) (p ! 3) (p ! 4)
               (if error s = 1 then ESC # ''[0J'' else ESC # ''[0K'')])
          (stdout (state_of (iteration d inp s))))"
      using x p unfolding o a by auto
  }
  note long = this
  {
    assume "length p < 5"
    from short_line_error_block [OF assms(1,2) this e, of d s]
    have "\<exists>sx. iteration d inp s = Running sx \<and> error sx = 1
           \<and> stdout sx = stdout s @
               error_block (current_time inp) (IndexError ''list index out of range'')"
      by blast
  }
  note short = this
  from long short show ?thesis by blast
qed

theorem one_empty_field_other_raw_witness:
  "scan_lines [''$GPGLL,4807.038,N,,E,225444,A'' @ [CHR 0x0A]] None
     = Some [''$GPGLL'', ''4807.038'', ''N'', [], ''E'', ''225444'', ''A'' @ [CHR 0x0A]]
   \<and> prefix
       [ESC # ''[93m'' @ ESC # ''[1F12:00:00 '' @ ESC # ''[97m| '' @ ESC # ''[92mLong: ''
        @ ESC # ''[37m4807.038'' @ ESC # ''[97m, '' @ ESC # ''[37mN '' @ ESC # ''[97m| ''
        @ ESC # ''[92mLat: '' @ ESC # ''[37mWaiting for data.'' @ ESC # ''[97m, '' @ ESC # ''[37mE''
        @ ESC # ''[0K'']
       (stdout (state_of (iteration (PyInt 1)
        \<lparr>current_time = ''12:00:00'',
           opened = Inr [''$GPGLL,4807.038,N,,E,225444,A'' @ [CHR 0x0A]],
           log_failure = None, sigint = False\<rparr> initial)))
   \<and> scan_lines [''$GPGLL,4807.038,N,''] None = Some [''$GPGLL'', ''4807.038'', ''N'', []]
   \<and> (\<exists>sx. iteration (PyInt 1)
        \<lparr>current_time = ''12:00:00'', opened = Inr [''$GPGLL,4807.038,N,''],
           log_failure = None, sigint = False\<rparr> initial = Running sx
        \<and> error sx = 1
        \<and> stdout sx =
            [ESC # ''[2F12:00:00 | Bits lost... Looping again...'' @ ESC # ''[K'',
             ''Error: list index out of range'' @ ESC # ''[K''])"
proof -
  let ?inp = "\<lparr>current_time = ''12:00:00'',
           opened = Inr [''$GPGLL,4807.038,N,,E,225444,A'' @ [CHR 0x0A]],
           log_failure = None, sigint = False\<rparr>"
  let ?p = "[''$GPGLL'', ''4807.038'', ''N'', [], ''E'', ''225444'', ''A'' @ [CHR 0x0A]]"
  have h1: "opened ?inp = Inr [''$GPGLL,4807.038,N,,E,225444,A'' @ [CHR 0x0A]]" by simp
  have h2: "scan_lines [''$GPGLL,4807.038,N,,E,225444,A'' @ [CHR 0x0A]] None = Some ?p"
    by (simp add: scan_lines_def)
  have h3: "(1 < length ?p \<and> ?p ! 1 = []) \<noteq> (3 < length ?p \<and> ?p ! 3 = [])" by simp
  from one_empty_field_other_raw [OF h1 h2 h3, of initial "PyInt 1"] h2
  have long: "scan_lines [''$GPGLL,4807.038,N,,E,225444,A'' @ [CHR 0x0A]] None = Some ?p
   \<and> prefix
       [ESC # ''[93m'' @ ESC # ''[1F12:00:00 '' @ ESC # ''[97m| '' @ ESC # ''[92mLong: ''
        @ ESC # ''[37m4807.038'' @ ESC # ''[97m, '' @ ESC # ''[37mN '' @ ESC # ''[97m| ''
        @ ESC # ''[92mLat: '' @ ESC # ''[37mWaiting for data.'' @ ESC # ''[97m, '' @ ESC # ''[37mE''
        @ ESC # ''[0K'']
       (stdout (state_of (iteration (PyInt 1) ?inp initial)))"
    by (simp add: initial_def advance_def fancy_waiting_def status_line_def)
  let ?inq = "\<lparr>current_time = ''12:00:00'', opened = Inr [''$GPGLL,4807.038,N,''],
           log_failure = None, sigint = False\<rparr>"
  let ?q = "[''$GPGLL'', ''4807.038'', ''N'', []]"
  have k1: "opened ?inq = Inr [''$GPGLL,4807.038,N,'']" by simp
  have k2: "scan_lines [''$GPGLL,4807.038,N,''] None = Some ?q"
    by (simp add: scan_lines_def)
  have k3: "(1 < length ?q \<and> ?q ! 1 = []) \<noteq> (3 < length ?q \<and> ?q ! 3 = [])" by simp
  from one_empty_field_other_raw [OF k1 k2 k3, of initial "PyInt 1"] k2
  have short: "scan_lines [''$GPGLL,4807.038,N,''] None = Some ?q
   \<and> (\<exists>sx. iteration (PyInt 1) ?inq initial = Running sx
        \<and> error sx = 1
        \<and> stdout sx =
            [ESC # ''[2F12:00:00 | Bits lost... Looping again...'' @ ESC # ''[K'',
             ''Error: list index out of range'' @ ESC # ''[K''])"
    by (simp add: initial_def error_block_def)
  from long short show ?thesis by blast
qed

text \<open>
  The claim as stated fails on a most recent matching line with fewer than five
  fields: when the file ends with \<^verbatim>\<open>$GPGLL,4807.038,N,\<close> and no line break, the longitude
  is empty and the latitude is not; the guard of line 58 skips the conversion, the
  longitude is replaced by the waiting indicator, and line 74 reads a fifth field that is
  not there. The latitude is not rendered: the iteration prints the error block.
\<close>

theorem one_empty_field_short_line_counterexample:
  "iteration (PyInt 1)
     \<lparr>current_time = ''12:00:00'', opened = Inr [''$GPGLL,4807.038,N,''],
        log_failure = None, sigint = False\<rparr> initial
   = Running
      \<lparr>error = 1, it = 0,
         parts = Some [''$GPGLL'', ''4807.038'', ''N'', ''Waiting for data.''],
         debug_log = [],
         stdout =
           [ESC # ''[2F12:00:00 | Bits lost... Looping again...'' @ ESC # ''[K'',
            ''Error: list index out of range'' @ ESC # ''[K''],
         sleeps = []\<rparr>"
  by code_simp

subsection \<open>The redraw after an error\<close>

lemma work_Inr_redraw:
  assumes "work inp s = Inr s1"
  shows "error s1 = (if error s = 1 then 0 else error s)
    \<and> (\<exists>p. parts s1 = Some p \<and> 5 \<le> length p \<and>
        stdout s1 = stdout s @
          [status_line (if error s = 1 then ESC # ''[2F'' else ESC # ''[1F'') (current_time inp)
             (p ! 1) (if p ! 2 \<noteq> [] then ESC # ''[97m,'' else []) (p ! 2) (p ! 3) (p ! 4)
             (if error s = 1 then ESC # ''[0J'' else ESC # ''[0K'')])"
  using assms unfolding work_def
proof (elim and_then_Inr)
  fix sa sb sc
  assume "read_file inp s = Inr sc" and "convert_fields inp sc = Inr sb"
    and "fill_waiting sb = Inr sa" and "redraw inp sa = Inr s1"
  from read_file_Inr [OF this(1)] convert_fields_Inr [OF this(2)] fill_waiting_Inr [OF this(3)]
    redraw_Inr [OF this(4)]
  show ?thesis by auto
qed

lemma redrawn_after_error:
  assumes "work inp (advance (handler inp1 e sx)) = Inr sa"
  shows "error sa = 0
    \<and> (\<exists>p. parts sa = Some p \<and>
         stdout sa = stdout (handler inp1 e sx) @
           [status_line (ESC # ''[2F'') (current_time inp)
              (p ! 1) (if p ! 2 \<noteq> [] then ESC # ''[97m,'' else []) (p ! 2) (p ! 3) (p ! 4)
              (ESC # ''[0J'')])"
proof -
  have f: "error (advance (handler inp1 e sx)) = 1"
    "stdout (advance (handler inp1 e sx)) = stdout (handler inp1 e sx)"
    by (simp_all add: advance_def handler_def)
  from work_Inr_redraw [OF assms] f show ?thesis by auto
qed

lemma after_work_sleep_Inr:
  assumes "work inp (advance s) = Inr sa" and "sleep d inp sa = Inr s2"
  shows "iteration d inp s = Running s2 \<and> error s2 = error sa \<and> stdout s2 = stdout sa"
proof -
  from assms have "try_body d inp (advance s) = Inr s2"
    by (simp add: try_body_def and_then_def)
  then have "iteration d inp s = Running s2" by (simp add: iteration_def)
  with sleep_Inr [OF assms(2)] show ?thesis by simp
qed

lemma after_work_sleep_Inl:
  assumes "work inp (advance s) = Inr sa" and "sleep d inp sa = Inl (e, sb)"
    and "is_Exception e"
  shows "iteration d inp s = Running (handler inp e sa) \<and> error (handler inp e sa) = 1
    \<and> stdout (handler inp e sa) = stdout sa @ error_block (current_time inp) e"
proof -
  from sleep_Inl [OF assms(2)] have "sb = sa" by simp
  with assms have "try_body d inp (advance s) = Inl (e, sa)"
    by (simp add: try_body_def and_then_def)
  with assms(3) show ?thesis by (simp add: iteration_def handler_def)
qed

text \<open>
  C6, as amended: after an iteration that raises an internal error, the immediately
  following iteration, when its steps up to the print of the status line do not raise,
  draws its status line, the first string it prints, with the two-line rewind and the
  clear escape that goes with it, and has reset the error flag to 0. The flag is still
  0 at the end of that iteration when the sleep completes; when the sleep raises, the
  handler prints the error block after the status line and sets the flag to 1 again.
  When one of the steps before the sleep raises, the following iteration draws no
  status line, prints the error block instead, and ends with the flag at 1.
\<close>

theorem rewind_after_error:
  assumes "try_body d inp1 (advance s) = Inl (e, sx)" and "is_Exception e"
  shows "iteration d inp1 s = Running (handler inp1 e sx)
    \<and> (\<forall>sa. work inp2 (advance (handler inp1 e sx)) = Inr sa \<longrightarrow>
          error sa = 0
          \<and> (\<exists>p. parts sa = Some p \<and>
               stdout sa = stdout (handler inp1 e sx) @
                 [status_line (ESC # ''[2F'') (current_time inp2)
                    (p ! 1) (if p ! 2 \<noteq> [] then ESC # ''[97m,'' else []) (p ! 2) (p ! 3) (p ! 4)
                    (ESC # ''[0J'')])
          \<and> prefix (stdout sa) (stdout (state_of (run d [inp1, inp2] s)))
          \<and> (\<forall>s2. sleep d inp2 sa = Inr s2 \<longrightarrow>
                run d [inp1, inp2] s = Running s2 \<and> error s2 = 0 \<and> stdout s2 = stdout sa)
          \<and> (\<forall>e2 sb. sleep d inp2 sa = Inl (e2, sb) \<and> is_Exception e2 \<longrightarrow>
                run d [inp1, inp2] s = Running (handler inp2 e2 sa)
                \<and> error (handler inp2 e2 sa) = 1
                \<and> stdout (handler inp2 e2 sa) = stdout sa @ error_block (current_time inp2) e2))
    \<and> (\<forall>e2 sy. work inp2 (advance (handler inp1 e sx)) = Inl (e2, sy) \<longrightarrow>
          run d [inp1, inp2] s = Running (handler inp2 e2 sy)
          \<and> error (handler inp2 e2 sy) = 1
          \<and> stdout (handler inp2 e2 sy) =
              stdout (handler inp1 e sx) @ error_block (current_time inp2) e2)"
proof (intro conjI allI impI)
  let ?s1 = "handler inp1 e sx"
  from assms show i1: "iteration d inp1 s = Running ?s1"
    by (simp add: iteration_def)
  then have r: "run d [inp1, inp2] s = iteration d inp2 ?s1"
    by (cases "iteration d inp2 ?s1") simp_all
  {
    fix sa
    assume w: "work inp2 (advance ?s1) = Inr sa"
    from redrawn_after_error [OF w] show "error sa = 0" by simp
    from redrawn_after_error [OF w]
    show "\<exists>p. parts sa = Some p \<and>
               stdout sa = stdout ?s1 @
                 [status_line (ESC # ''[2F'') (current_time inp2)
                    (p ! 1) (if p ! 2 \<noteq> [] then ESC # ''[97m,'' else []) (p ! 2) (p ! 3) (p ! 4)
                    (ESC # ''[0J'')]"
      by simp
    from iteration_after_work [OF w, of d]
    show "prefix (stdout sa) (stdout (state_of (run d [inp1, inp2] s)))"
      unfolding r by simp
    {
      fix s2
      assume sl: "sleep d inp2 sa = Inr s2"
      from after_work_sleep_Inr [OF w sl] show "run d [inp1, inp2] s = Running s2"
        unfolding r by simp
      from after_work_sleep_Inr [OF w sl] redrawn_after_error [OF w] show "error s2 = 0"
        by simp
      from after_work_sleep_Inr [OF w sl] show "stdout s2 = stdout sa" by simp
    }
    {
      fix e2 sb
      assume "sleep d inp2 sa = Inl (e2, sb) \<and> is_Exception e2"
      then have sl: "sleep d inp2 sa = Inl (e2, sb)" and ex: "is_Exception e2" by simp_all
      from after_work_sleep_Inl [OF w sl ex]
      show "run d [inp1, inp2] s = Running (handler inp2 e2 sa)"
        unfolding r by simp
      from after_work_sleep_Inl [OF w sl ex] show "error (handler inp2 e2 sa) = 1" by simp
      from after_work_sleep_Inl [OF w sl ex]
      show "stdout (handler inp2 e2 sa) = stdout sa @ error_block (current_time inp2) e2"
        by simp
    }
  }
  {
    fix e2 sy
    assume w: "work inp2 (advance ?s1) = Inl (e2, sy)"
    from handled_again [OF w, of d]
    show "run d [inp1, inp2] s = Running (handler inp2 e2 sy)" unfolding r by simp
    from handled_again [OF w, of d] show "error (handler inp2 e2 sy) = 1" by simp
    from handled_again [OF w, of d]
    show "stdout (handler inp2 e2 sy) = stdout ?s1 @ error_block (current_time inp2) e2"
      by simp
  }
qed

theorem rewind_after_error_witness:
  "try_body (PyInt 1)
     \<lparr>current_time = ''12:00:00'', opened = Inl ''[Errno 2] No such file or directory'',
        log_failure = None, sigint = False\<rparr> (advance initial)
     = Inl (OSError ''[Errno 2] No such file or directory'', advance initial)
   \<and> run (PyInt 1)
       [\<lparr>current_time = ''12:00:00'', opened = Inl ''[Errno 2] No such file or directory'',
           log_failure = None, sigint = False\<rparr>,
        \<lparr>current_time = ''12:00:01'',
           opened = Inr [''$GPGLL,4807.038,N,01131.000,E,225444,A'' @ [CHR 0x0A]],
           log_failure = None, sigint = False\<rparr>] initial
     = Running
        \<lparr>error = 0, it = 1,
           parts = Some [''$GPGLL'', ''48.117'', ''N'', ''11.517'', ''E'', ''225444'',
                         ''A'' @ [CHR 0x0A]],
           debug_log = [ESC # ''[93,m12:00:01, 48.117, N, 11.517, E'' @ [CHR 0x0A]],
           stdout =
             [ESC # ''[2F12:00:00 | Bits lost... Looping again...'' @ ESC # ''[K'',
              ''Error: [Errno 2] No such file or directory'' @ ESC # ''[K'',
              ESC # ''[93m'' @ ESC # ''[2F12:00:01 '' @ ESC # ''[97m| '' @ ESC # ''[92mLong: ''
              @ ESC # ''[37m48.117'' @ ESC # ''[97m, '' @ ESC # ''[37mN '' @ ESC # ''[97m| ''
              @ ESC # ''[92mLat: '' @ ESC # ''[37m11.517'' @ ESC # ''[97m, '' @ ESC # ''[37mE''
              @ ESC # ''[0J''],
           sleeps = [PyInt 1]\<rparr>
   \<and> run (PyInt (- 3))
       [\<lparr>current_time = ''12:00:00'', opened = Inl ''[Errno 2] No such file or directory'',
           log_failure = None, sigint = False\<rparr>,
        \<lparr>current_time = ''12:00:01'',
           opened = Inr [''$GPGLL,4807.038,N,01131.000,E,225444,A'' @ [CHR 0x0A]],
           log_failure = None, sigint = False\<rparr>] initial
     = Running
        \<lparr>error = 1, it = 1,
           parts = Some [''$GPGLL'', ''48.117'', ''N'', ''11.517'', ''E'', ''225444'',
                         ''A'' @ [CHR 0x0A]],
           debug_log = [ESC # ''[93,m12:00:01, 48.117, N, 11.517, E'' @ [CHR 0x0A]],
           stdout =
             [ESC # ''[2F12:00:00 | Bits lost... Looping again...'' @ ESC # ''[K'',
              ''Error: [Errno 2] No such file or directory'' @ ESC # ''[K'',
              ESC # ''[93m'' @ ESC # ''[2F12:00:01 '' @ ESC # ''[97m| '' @ ESC # ''[92mLong: ''
              @ ESC # ''[37m48.117'' @ ESC # ''[97m, '' @ ESC # ''[37mN '' @ ESC # ''[97m| ''
              @ ESC # ''[92mLat: '' @ ESC # ''[37m11.517'' @ ESC # ''[97m, '' @ ESC # ''[37mE''
              @ ESC # ''[0J'',
              ESC # ''[2F12:00:01 | Bits lost... Looping again...'' @ ESC # ''[K'',
              ''Error: sleep length must be non-negative'' @ ESC # ''[K''],
           sleeps = []\<rparr>
   \<and> error (state_of (run (PyInt 1)
       [\<lparr>current_time = ''12:00:00'', opened = Inl ''[Errno 2] No such file or directory'',
           log_failure = None, sigint = False\<rparr>,
        \<lparr>current_time = ''12:00:00'', opened = Inl ''[Errno 2] No such file or directory'',
           log_failure = None, sigint = False\<rparr>] initial)) = 1"
proof -
  let ?inp1 = "\<lparr>current_time = ''12:00:00'', opened = Inl ''[Errno 2] No such file or directory'',
        log_failure = None, sigint = False\<rparr>"
  let ?inp2 = "\<lparr>current_time = ''12:00:01'',
           opened = Inr [''$GPGLL,4807.038,N,01131.000,E,225444,A'' @ [CHR 0x0A]],
           log_failure = None, sigint = False\<rparr>"
  let ?e = "OSError ''[Errno 2] No such file or directory''"
  let ?v = "ValueError ''sleep length must be non-negative''"
  let ?s1 = "handler ?inp1 ?e (advance initial)"
  let ?sa = "\<lparr>error = 0, it = 1,
           parts = Some [''$GPGLL'', ''48.117'', ''N'', ''11.517'', ''E'', ''225444'',
                         ''A'' @ [CHR 0x0A]],
           debug_log = [ESC # ''[93,m12:00:01, 48.117, N, 11.517, E'' @ [CHR 0x0A]],
           stdout =
             [ESC # ''[2F12:00:00 | Bits lost... Looping again...'' @ ESC # ''[K'',
              ''Error: [Errno 2] No such file or directory'' @ ESC # ''[K'',
              ESC # ''[93m'' @ ESC # ''[2F12:00:01 '' @ ESC # ''[97m| '' @ ESC # ''[92mLong: ''
              @ ESC # ''[37m48.117'' @ ESC # ''[97m, '' @ ESC # ''[37mN '' @ ESC # ''[97m| ''
              @ ESC # ''[92mLat: '' @ ESC # ''[37m11.517'' @ ESC # ''[97m, '' @ ESC # ''[37mE''
              @ ESC # ''[0J''],
           sleeps = []\<rparr>"
  have h1: "try_body d ?inp1 (advance initial) = Inl (?e, advance initial)" for d
    by (simp add: try_body_def work_def read_file_def and_then_def)
  have h2: "is_Exception ?e" by simp
  have hw: "work ?inp2 (advance ?s1) = Inr ?sa"
    by code_simp
  have hs: "sleep (PyInt 1) ?inp2 ?sa = Inr (?sa\<lparr>sleeps := [PyInt 1]\<rparr>)"
    by (simp add: sleep_def sleep_nanoseconds_def lift_def)
  have hv: "sleep (PyInt (- 3)) ?inp2 ?sa = Inl (?v, ?sa) \<and> is_Exception ?v"
    by (simp add: sleep_def sleep_nanoseconds_def lift_def)
  from rewind_after_error [OF h1 h2, of "PyInt 1" ?inp2] hw
  have "\<forall>s2. sleep (PyInt 1) ?inp2 ?sa = Inr s2 \<longrightarrow>
      run (PyInt 1) [?inp1, ?inp2] initial = Running s2"
    by blast
  with hs have a: "run (PyInt 1) [?inp1, ?inp2] initial = Running (?sa\<lparr>sleeps := [PyInt 1]\<rparr>)"
    by blast
  from rewind_after_error [OF h1 h2, of "PyInt (- 3)" ?inp2] hw
  have "\<forall>e2 sb. sleep (PyInt (- 3)) ?inp2 ?sa = Inl (e2, sb) \<and> is_Exception e2 \<longrightarrow>
      run (PyInt (- 3)) [?inp1, ?inp2] initial = Running (handler ?inp2 e2 ?sa)"
    by blast
  with hv have b: "run (PyInt (- 3)) [?inp1, ?inp2] initial = Running (handler ?inp2 ?v ?sa)"
    by blast
  have h4: "work ?inp1 (advance ?s1) = Inl (?e, advance ?s1)"
    by (simp add: work_def read_file_def and_then_def)
  from rewind_after_error [OF h1 h2, of "PyInt 1" ?inp1]
  have "\<forall>e2 sy. work ?inp1 (advance ?s1) = Inl (e2, sy) \<longrightarrow>
      run (PyInt 1) [?inp1, ?inp1] initial = Running (handler ?inp1 e2 sy)
      \<and> error (handler ?inp1 e2 sy) = 1"
    by blast
  with h4 have "run (PyInt 1) [?inp1, ?inp1] initial = Running (handler ?inp1 ?e (advance ?s1))
      \<and> error (handler ?inp1 ?e (advance ?s1)) = 1"
    by blast
  then have c: "error (state_of (run (PyInt 1) [?inp1, ?inp1] initial)) = 1" by simp
  from a have a': "run (PyInt 1) [?inp1, ?inp2] initial = Running
        \<lparr>error = 0, it = 1,
           parts = Some [''$GPGLL'', ''48.117'', ''N'', ''11.517'', ''E'', ''225444'',
                         ''A'' @ [CHR 0x0A]],
           debug_log = [ESC # ''[93,m12:00:01, 48.117, N, 11.517, E'' @ [CHR 0x0A]],
           stdout =
             [ESC # ''[2F12:00:00 | Bits lost... Looping again...'' @ ESC # ''[K'',
              ''Error: [Errno 2] No such file or directory'' @ ESC # ''[K'',
              ESC # ''[93m'' @ ESC # ''[2F12:00:01 '' @ ESC # ''[97m| '' @ ESC # ''[92mLong: ''
              @ ESC # ''[37m48.117'' @ ESC # ''[97m, '' @ ESC # ''[37mN '' @ ESC # ''[97m| ''
              @ ESC # ''[92mLat: '' @ ESC # ''[37m11.517'' @ ESC # ''[97m, '' @ ESC # ''[37mE''
              @ ESC # ''[0J''],
           sleeps = [PyInt 1]\<rparr>"
    by simp
  from b have b': "run (PyInt (- 3)) [?inp1, ?inp2] initial = Running
        \<lparr>error = 1, it = 1,
           parts = Some [''$GPGLL'', ''48.117'', ''N'', ''11.517'', ''E'', ''225444'',
                         ''A'' @ [CHR 0x0A]],
           debug_log = [ESC # ''[93,m12:00:01, 48.117, N, 11.517, E'' @ [CHR 0x0A]],
           stdout =
             [ESC # ''[2F12:00:00 | Bits lost... Looping again...'' @ ESC # ''[K'',
              ''Error: [Errno 2] No such file or directory'' @ ESC # ''[K'',
              ESC # ''[93m'' @ ESC # ''[2F12:00:01 '' @ ESC # ''[97m| '' @ ESC # ''[92mLong: ''
              @ ESC # ''[37m48.117'' @ ESC # ''[97m, '' @ ESC # ''[37mN '' @ ESC # ''[97m| ''
              @ ESC # ''[92mLat: '' @ ESC # ''[37m11.517'' @ ESC # ''[97m, '' @ ESC # ''[37mE''
              @ ESC # ''[0J'',
              ESC # ''[2F12:00:01 | Bits lost... Looping again...'' @ ESC # ''[K'',
              ''Error: sleep length must be non-negative'' @ ESC # ''[K''],
           sleeps = []\<rparr>"
    by (simp add: handler_def error_block_def)
  from h1 [of "PyInt 1"] a' b' c show ?thesis by (intro conjI)
qed

text \<open>
  The claim as stated fails when the following iteration raises before its redraw:
  after two polls of a missing file the second iteration has drawn no status line and
  the flag is 1.
\<close>

theorem rewind_after_error_counterexample:
  "run (PyInt 1)
     [\<lparr>current_time = ''12:00:00'', opened = Inl ''[Errno 2] No such file or directory'',
         log_failure = None, sigint = False\<rparr>,
      \<lparr>current_time = ''12:00:00'', opened = Inl ''[Errno 2] No such file or directory'',
         log_failure = None, sigint = False\<rparr>] initial
   = Running
      \<lparr>error = 1, it = 1, parts = None, debug_log = [],
         stdout =
           [ESC # ''[2F12:00:00 | Bits lost... Looping again...'' @ ESC # ''[K'',
            ''Error: [Errno 2] No such file or directory'' @ ESC # ''[K'',
            ESC # ''[2F12:00:00 | Bits lost... Looping again...'' @ ESC # ''[K'',
            ''Error: [Errno 2] No such file or directory'' @ ESC # ''[K''],
         sleeps = []\<rparr>"
  by code_simp

subsection \<open>The labels of the status line\<close>

lemma format_repr_nonempty: "format_repr ds k \<noteq> []"
  by (simp add: format_repr_def)

lemma float_repr_nonempty: "float_repr x \<noteq> []"
  by (cases x) (simp_all add: format_repr_nonempty Let_def)

lemma bnd_Inr:
  assumes "bnd m f = Inr v"
    and "\<And>x. m = Inr x \<Longrightarrow> f x = Inr v \<Longrightarrow> Q"
  shows Q
  using assms by (cases m) (auto simp: bnd_def)

lemma convert_nonempty:
  assumes "convert_to_decimal_deg t sel = Inr v"
  shows "v \<noteq> []"
  using assms unfolding convert_to_decimal_deg_def
proof (elim bnd_Inr)
  fix x :: "pyfloat \<times> string \<times> string"
  assume "(case x of (DD, mm_1, mm_2) \<Rightarrow>
            bnd (py_float (mm_1 @ ''.'' @ mm_2)) (\<lambda>deci.
              Inr (float_repr (py_round (float_add DD (float_div_int deci 60)) 3)))) = Inr v"
  then show ?thesis
    by (cases x) (auto elim!: bnd_Inr simp: float_repr_nonempty)
qed

lemma convert_fields_Inr_cases:
  assumes "convert_fields inp s = Inr s1"
  shows "\<exists>p. parts s = Some p \<and> 2 \<le> length p \<and>
     (p ! 1 = [] \<and> parts s1 = Some p
      \<or> p ! 1 \<noteq> [] \<and> p ! 3 = [] \<and> 4 \<le> length p \<and> parts s1 = Some p
      \<or> p ! 1 \<noteq> [] \<and> p ! 3 \<noteq> [] \<and> 5 \<le> length p \<and>
        (\<exists>v1 v3. convert_to_decimal_deg (p ! 1) ''lat'' = Inr v1
           \<and> convert_to_decimal_deg (p ! 3) ''long'' = Inr v3
           \<and> parts s1 = Some (p[1 := v1, 3 := v3])))"
proof (cases "parts s")
  case None
  with assms show ?thesis by (simp add: convert_fields_def with_parts_def)
next
  case (Some p)
  show ?thesis
  proof (cases "2 \<le> length p")
    case False
    with assms Some show ?thesis
      by (simp add: convert_fields_def with_parts_def lift_def getitem_def)
  next
    case l2: True
    show ?thesis
    proof (cases "p ! 1 = []")
      case True
      with assms Some l2 show ?thesis
        by (auto simp: convert_fields_def with_parts_def lift_def getitem_def)
    next
      case n1: False
      show ?thesis
      proof (cases "4 \<le> length p")
        case False
        with assms Some l2 n1 show ?thesis
          by (simp add: convert_fields_def with_parts_def lift_def getitem_def)
      next
        case l4: True
        show ?thesis
        proof (cases "p ! 3 = []")
          case True
          with assms Some l2 n1 l4 show ?thesis
            by (auto simp: convert_fields_def with_parts_def lift_def getitem_def)
        next
          case n3: False
          from assms Some l2 n1 l4 n3 show ?thesis
            by (auto simp: convert_fields_def with_parts_def lift_def getitem_def Let_def
                split: sum.splits option.splits if_splits)
        qed
      qed
    qed
  qed
qed

lemma fill_waiting_Inr_parts:
  assumes "fill_waiting s = Inr s1"
  shows "\<exists>q r. parts s = Some q \<and> 4 \<le> length q \<and> parts s1 = Some r
     \<and> length r = length q \<and> r ! 2 = q ! 2 \<and> r ! 4 = q ! 4
     \<and> r ! 1 = (if q ! 1 = [] then fancy_waiting ''Waiting for data'' (it s) else q ! 1)
     \<and> r ! 3 = (if q ! 3 = [] then fancy_waiting ''Waiting for data'' (it s) else q ! 3)"
proof (cases "parts s")
  case None
  with assms show ?thesis by (simp add: fill_waiting_def with_parts_def)
next
  case (Some q)
  show ?thesis
  proof (cases "4 \<le> length q")
    case False
    with assms Some show ?thesis
      by (auto simp: fill_waiting_def with_parts_def lift_def getitem_def Let_def
          split: if_splits)
  next
    case True
    with assms Some show ?thesis
      by (auto simp: fill_waiting_def with_parts_def lift_def getitem_def Let_def)
  qed
qed

text \<open>
  C9: in the status line of every iteration that draws one, the value derived from the
  latitude field (field 1 of the retained split: the waiting indicator when it is
  empty, the field itself when only the longitude is empty, its conversion otherwise)
  stands after the label \<^verbatim>\<open>Long:\<close>, and the value derived from the longitude field
  (field 3) stands after the label \<^verbatim>\<open>Lat:\<close>.
\<close>

theorem labels_swapped:
  assumes "work inp (advance s) = Inr s1"
  shows "\<exists>ls p v1 v3.
     opened inp = Inr ls \<and> scan_lines ls (parts s) = Some p \<and> 5 \<le> length p
     \<and> (p ! 1 = [] \<and> v1 = fancy_waiting ''Waiting for data'' (it (advance s))
        \<or> p ! 1 \<noteq> [] \<and> p ! 3 = [] \<and> v1 = p ! 1
        \<or> p ! 1 \<noteq> [] \<and> p ! 3 \<noteq> [] \<and> convert_to_decimal_deg (p ! 1) ''lat'' = Inr v1)
     \<and> (p ! 3 = [] \<and> v3 = fancy_waiting ''Waiting for data'' (it (advance s))
        \<or> p ! 3 \<noteq> [] \<and> p ! 1 = [] \<and> v3 = p ! 3
        \<or> p ! 1 \<noteq> [] \<and> p ! 3 \<noteq> [] \<and> convert_to_decimal_deg (p ! 3) ''long'' = Inr v3)
     \<and> prefix
         (stdout s @
           [ESC # ''[93m'' @ (if error s = 1 then ESC # ''[2F'' else ESC # ''[1F'')
            @ current_time inp @ '' '' @ ESC # ''[97m| '' @ ESC # ''[92mLong: '' @ ESC # ''[37m''
            @ v1 @ (if p ! 2 \<noteq> [] then ESC # ''[97m,'' else []) @ '' '' @ ESC # ''[37m'' @ p ! 2
            @ '' '' @ ESC # ''[97m| '' @ ESC # ''[92mLat: '' @ ESC # ''[37m''
            @ v3 @ (if p ! 2 \<noteq> [] then ESC # ''[97m,'' else []) @ '' '' @ ESC # ''[37m'' @ p ! 4
            @ (if error s = 1 then ESC # ''[0J'' else ESC # ''[0K'')])
         (stdout (state_of (iteration d inp s)))"
proof -
  let ?s0 = "advance s"
  let ?w = "fancy_waiting ''Waiting for data'' (it ?s0)"
  from assms obtain sa sb sc where r: "read_file inp ?s0 = Inr sc"
    and c: "convert_fields inp sc = Inr sb" and f: "fill_waiting sb = Inr sa"
    and d: "redraw inp sa = Inr s1"
    unfolding work_def by (elim and_then_Inr)
  from read_file_Inr [OF r] obtain ls where o: "opened inp = Inr ls"
    and sc: "sc = ?s0\<lparr>parts := scan_lines ls (parts ?s0)\<rparr>"
    by blast
  have a: "parts ?s0 = parts s" "stdout ?s0 = stdout s" "error ?s0 = error s"
    by (simp_all add: advance_def)
  from convert_fields_Inr_cases [OF c] sc a obtain p where p: "scan_lines ls (parts s) = Some p"
    and cases:
      "p ! 1 = [] \<and> parts sb = Some p
       \<or> p ! 1 \<noteq> [] \<and> p ! 3 = [] \<and> 4 \<le> length p \<and> parts sb = Some p
       \<or> p ! 1 \<noteq> [] \<and> p ! 3 \<noteq> [] \<and> 5 \<le> length p \<and>
         (\<exists>v1 v3. convert_to_decimal_deg (p ! 1) ''lat'' = Inr v1
            \<and> convert_to_decimal_deg (p ! 3) ''long'' = Inr v3
            \<and> parts sb = Some (p[1 := v1, 3 := v3]))"
    by auto
  from convert_fields_Inr [OF c] sc a have fb: "stdout sb = stdout s" "error sb = error s"
    "it sb = it ?s0"
    by simp_all
  from fill_waiting_Inr [OF f] fb have fa: "stdout sa = stdout s" "error sa = error s"
    by simp_all
  from fill_waiting_Inr_parts [OF f] fb obtain q r where q: "parts sb = Some q"
    and rr: "parts sa = Some r" and lr: "length r = length q"
    and r2: "r ! 2 = q ! 2" and r4: "r ! 4 = q ! 4"
    and r1: "r ! 1 = (if q ! 1 = [] then ?w else q ! 1)"
    and r3: "r ! 3 = (if q ! 3 = [] then ?w else q ! 3)"
    by auto
  from redraw_Inr [OF d] rr fa have l5: "5 \<le> length r"
    and out: "stdout s1 = stdout s @
      [status_line (if error s = 1 then ESC # ''[2F'' else ESC # ''[1F'') (current_time inp)
         (r ! 1) (if r ! 2 \<noteq> [] then ESC # ''[97m,'' else []) (r ! 2) (r ! 3) (r ! 4)
         (if error s = 1 then ESC # ''[0J'' else ESC # ''[0K'')]"
    by auto
  from iteration_after_work [OF assms, of d]
  have pre: "prefix (stdout s1) (stdout (state_of (iteration d inp s)))" by simp
  have shown:
    "5 \<le> length p \<and> r ! 2 = p ! 2 \<and> r ! 4 = p ! 4
     \<and> (p ! 1 = [] \<and> r ! 1 = ?w
        \<or> p ! 1 \<noteq> [] \<and> p ! 3 = [] \<and> r ! 1 = p ! 1
        \<or> p ! 1 \<noteq> [] \<and> p ! 3 \<noteq> [] \<and> convert_to_decimal_deg (p ! 1) ''lat'' = Inr (r ! 1))
     \<and> (p ! 3 = [] \<and> r ! 3 = ?w
        \<or> p ! 3 \<noteq> [] \<and> p ! 1 = [] \<and> r ! 3 = p ! 3
        \<or> p ! 1 \<noteq> [] \<and> p ! 3 \<noteq> [] \<and> convert_to_decimal_deg (p ! 3) ''long'' = Inr (r ! 3))"
    using cases
  proof (elim disjE conjE exE)
    assume "p ! 1 = []" and "parts sb = Some p"
    with q lr l5 r1 r2 r3 r4 show ?thesis by auto
  next
    assume "p ! 1 \<noteq> []" and "p ! 3 = []" and "parts sb = Some p"
    with q lr l5 r1 r2 r3 r4 show ?thesis by auto
  next
    fix v1 v3
    assume n: "p ! 1 \<noteq> []" "p ! 3 \<noteq> []" and l: "5 \<le> length p"
      and c1: "convert_to_decimal_deg (p ! 1) ''lat'' = Inr v1"
      and c3: "convert_to_decimal_deg (p ! 3) ''long'' = Inr v3"
      and pb: "parts sb = Some (p[1 := v1, 3 := v3])"
    from convert_nonempty [OF c1] convert_nonempty [OF c3] have ne: "v1 \<noteq> []" "v3 \<noteq> []" .
    from pb q have "q = p[1 := v1, 3 := v3]" by simp
    with l have "q ! 1 = v1" "q ! 3 = v3" "q ! 2 = p ! 2" "q ! 4 = p ! 4" by simp_all
    with n l c1 c3 ne r1 r2 r3 r4 show ?thesis by simp
  qed
  show ?thesis
  proof (intro exI conjI)
    show "opened inp = Inr ls" by (rule o)
    show "scan_lines ls (parts s) = Some p" by (rule p)
    from shown show "5 \<le> length p" by simp
    from shown show
      "p ! 1 = [] \<and> r ! 1 = ?w
        \<or> p ! 1 \<noteq> [] \<and> p ! 3 = [] \<and> r ! 1 = p ! 1
        \<or> p ! 1 \<noteq> [] \<and> p ! 3 \<noteq> [] \<and> convert_to_decimal_deg (p ! 1) ''lat'' = Inr (r ! 1)"
      by simp
    from shown show
      "p ! 3 = [] \<and> r ! 3 = ?w
        \<or> p ! 3 \<noteq> [] \<and> p ! 1 = [] \<and> r ! 3 = p ! 3
        \<or> p ! 1 \<noteq> [] \<and> p ! 3 \<noteq> [] \<and> convert_to_decimal_deg (p ! 3) ''long'' = Inr (r ! 3)"
      by simp
    from shown have e: "r ! 2 = p ! 2" "r ! 4 = p ! 4" by simp_all
    from pre show "prefix
         (stdout s @
           [ESC # ''[93m'' @ (if error s = 1 then ESC # ''[2F'' else ESC # ''[1F'')
            @ current_time inp @ '' '' @ ESC # ''[97m| '' @ ESC # ''[92mLong: '' @ ESC # ''[37m''
            @ r ! 1 @ (if p ! 2 \<noteq> [] then ESC # ''[97m,'' else []) @ '' '' @ ESC # ''[37m'' @ p ! 2
            @ '' '' @ ESC # ''[97m| '' @ ESC # ''[92mLat: '' @ ESC # ''[37m''
            @ r ! 3 @ (if p ! 2 \<noteq> [] then ESC # ''[97m,'' else []) @ '' '' @ ESC # ''[37m'' @ p ! 4
            @ (if error s = 1 then ESC # ''[0J'' else ESC # ''[0K'')])
         (stdout (state_of (iteration d inp s)))"
      unfolding out e by (simp add: status_line_def)
  qed
qed

theorem labels_swapped_witness:
  "work \<lparr>current_time = ''12:00:00'',
          opened = Inr [''$GPGLL,4807.038,N,01131.000,E,225444,A'' @ [CHR 0x0A]],
          log_failure = None, sigint = False\<rparr> (advance initial)
     = Inr \<lparr>error = 0, it = 0,
         parts = Some [''$GPGLL'', ''48.117'', ''N'', ''11.517'', ''E'', ''225444'',
                       ''A'' @ [CHR 0x0A]],
         debug_log = [ESC # ''[93,m12:00:00, 48.117, N, 11.517, E'' @ [CHR 0x0A]],
         stdout =
           [ESC # ''[93m'' @ ESC # ''[1F12:00:00 '' @ ESC # ''[97m| '' @ ESC # ''[92mLong: ''
            @ ESC # ''[37m48.117'' @ ESC # ''[97m, '' @ ESC # ''[37mN '' @ ESC # ''[97m| ''
            @ ESC # ''[92mLat: '' @ ESC # ''[37m11.517'' @ ESC # ''[97m, '' @ ESC # ''[37mE''
            @ ESC # ''[0K''],
         sleeps = []\<rparr>
   \<and> (\<exists>ls p v1 v3.
     opened \<lparr>current_time = ''12:00:00'',
          opened = Inr [''$GPGLL,4807.038,N,01131.000,E,225444,A'' @ [CHR 0x0A]],
          log_failure = None, sigint = False\<rparr> = Inr ls
     \<and> scan_lines ls (parts initial) = Some p \<and> 5 \<le> length p
     \<and> (p ! 1 = [] \<and> v1 = fancy_waiting ''Waiting for data'' (it (advance initial))
        \<or> p ! 1 \<noteq> [] \<and> p ! 3 = [] \<and> v1 = p ! 1
        \<or> p ! 1 \<noteq> [] \<and> p ! 3 \<noteq> [] \<and> convert_to_decimal_deg (p ! 1) ''lat'' = Inr v1)
     \<and> (p ! 3 = [] \<and> v3 = fancy_waiting ''Waiting for data'' (it (advance initial))
        \<or> p ! 3 \<noteq> [] \<and> p ! 1 = [] \<and> v3 = p ! 3
        \<or> p ! 1 \<noteq> [] \<and> p ! 3 \<noteq> [] \<and> convert_to_decimal_deg (p ! 3) ''long'' = Inr v3)
     \<and> prefix
         (stdout initial @
           [ESC # ''[93m'' @ (if error initial = 1 then ESC # ''[2F'' else ESC # ''[1F'')
            @ ''12:00:00'' @ '' '' @ ESC # ''[97m| '' @ ESC # ''[92mLong: '' @ ESC # ''[37m''
            @ v1 @ (if p ! 2 \<noteq> [] then ESC # ''[97m,'' else []) @ '' '' @ ESC # ''[37m'' @ p ! 2
            @ '' '' @ ESC # ''[97m| '' @ ESC # ''[92mLat: '' @ ESC # ''[37m''
            @ v3 @ (if p ! 2 \<noteq> [] then ESC # ''[97m,'' else []) @ '' '' @ ESC # ''[37m'' @ p ! 4
            @ (if error initial = 1 then ESC # ''[0J'' else ESC # ''[0K'')])
         (stdout (state_of (iteration (PyInt 1)
            \<lparr>current_time = ''12:00:00'',
               opened = Inr [''$GPGLL,4807.038,N,01131.000,E,225444,A'' @ [CHR 0x0A]],
               log_failure = None, sigint = False\<rparr> initial))))"
proof (rule conjI)
  show h: "work \<lparr>current_time = ''12:00:00'',
          opened = Inr [''$GPGLL,4807.038,N,01131.000,E,225444,A'' @ [CHR 0x0A]],
          log_failure = None, sigint = False\<rparr> (advance initial)
     = Inr \<lparr>error = 0, it = 0,
         parts = Some [''$GPGLL'', ''48.117'', ''N'', ''11.517'', ''E'', ''225444'',
                       ''A'' @ [CHR 0x0A]],
         debug_log = [ESC # ''[93,m12:00:00, 48.117, N, 11.517, E'' @ [CHR 0x0A]],
         stdout =
           [ESC # ''[93m'' @ ESC # ''[1F12:00:00 '' @ ESC # ''[97m| '' @ ESC # ''[92mLong: ''
            @ ESC # ''[37m48.117'' @ ESC # ''[97m, '' @ ESC # ''[37mN '' @ ESC # ''[97m| ''
            @ ESC # ''[92mLat: '' @ ESC # ''[37m11.517'' @ ESC # ''[97m, '' @ ESC # ''[37mE''
            @ ESC # ''[0K''],
         sleeps = []\<rparr>"
    by code_simp
  from labels_swapped [OF h, of "PyInt 1"] show "\<exists>ls p v1 v3.
     opened \<lparr>current_time = ''12:00:00'',
          opened = Inr [''$GPGLL,4807.038,N,01131.000,E,225444,A'' @ [CHR 0x0A]],
          log_failure = None, sigint = False\<rparr> = Inr ls
     \<and> scan_lines ls (parts initial) = Some p \<and> 5 \<le> length p
     \<and> (p ! 1 = [] \<and> v1 = fancy_waiting ''Waiting for data'' (it (advance initial))
        \<or> p ! 1 \<noteq> [] \<and> p ! 3 = [] \<and> v1 = p ! 1
        \<or> p ! 1 \<noteq> [] \<and> p ! 3 \<noteq> [] \<and> convert_to_decimal_deg (p ! 1) ''lat'' = Inr v1)
     \<and> (p ! 3 = [] \<and> v3 = fancy_waiting ''Waiting for data'' (it (advance initial))
        \<or> p ! 3 \<noteq> [] \<and> p ! 1 = [] \<and> v3 = p ! 3
        \<or> p ! 1 \<noteq> [] \<and> p ! 3 \<noteq> [] \<and> convert_to_decimal_deg (p ! 3) ''long'' = Inr v3)
     \<and> prefix
         (stdout initial @
           [ESC # ''[93m'' @ (if error initial = 1 then ESC # ''[2F'' else ESC # ''[1F'')
            @ ''12:00:00'' @ '' '' @ ESC # ''[97m| '' @ ESC # ''[92mLong: '' @ ESC # ''[37m''
            @ v1 @ (if p ! 2 \<noteq> [] then ESC # ''[97m,'' else []) @ '' '' @ ESC # ''[37m'' @ p ! 2
            @ '' '' @ ESC # ''[97m| '' @ ESC # ''[92mLat: '' @ ESC # ''[37m''
            @ v3 @ (if p ! 2 \<noteq> [] then ESC # ''[97m,'' else []) @ '' '' @ ESC # ''[37m'' @ p ! 4
            @ (if error initial = 1 then ESC # ''[0J'' else ESC # ''[0K'')])
         (stdout (state_of (iteration (PyInt 1)
            \<lparr>current_time = ''12:00:00'',
               opened = Inr [''$GPGLL,4807.038,N,01131.000,E,225444,A'' @ [CHR 0x0A]],
               log_failure = None, sigint = False\<rparr> initial)))"
    by simp
qed

end
